theory Spec2Isabelle
  imports Main "HOL-Library.Sublist"
begin

section \<open>Data model\<close>

text \<open>
  The chat orchestrator of \<^verbatim>\<open>backend/app/rag/chat.py\<close>. Python strings are lists of
  characters (one \<^typ>\<open>char\<close> per code point of the source string), UUIDs and row
  identifiers are natural numbers, and every exception is a value of \<open>exn\<close>.
\<close>

type_synonym uuid = nat

datatype exn =
  IndexError
  | TemplateError string
  | UpstreamCallError string
  | DatabaseError string
  | OtherError string

text \<open>\<^verbatim>\<open>app.models.User\<close>, as far as \<^verbatim>\<open>chat.py\<close> reads it.\<close>

record user =
  user_id :: uuid
  user_email :: string
  is_superuser :: bool

text \<open>
  \<^verbatim>\<open>app/models/chat.py\<close>, class \<^verbatim>\<open>Chat\<close>; \<open>chat_user_id\<close> is nullable, and
  \<open>chat_engine_name\<close> is the name of the joined \<^verbatim>\<open>engine\<close> row (\<^verbatim>\<open>chat.engine.name\<close>).
\<close>

record db_chat =
  chat_id :: uuid
  chat_title :: string
  chat_engine_id :: nat
  chat_engine_name :: string
  chat_engine_options :: string
  chat_deleted_at :: "nat option"
  chat_user_id :: "uuid option"
  chat_browser_id :: string

record source_document =
  doc_id :: nat
  doc_name :: string
  doc_source_uri :: string

text \<open>
  \<^verbatim>\<open>app.models.ChatMessage\<close> with the fields \<^verbatim>\<open>chat.py\<close> reads and writes. An ordinal
  of \<open>0\<close> is the unset default.
\<close>

record db_chat_message =
  message_id :: nat
  message_chat_id :: uuid
  message_role :: string
  message_content :: string
  message_ordinal :: nat
  message_trace_url :: "string option"
  message_sources :: "source_document list"
  message_updated_at :: "nat option"
  message_finished_at :: "nat option"

text \<open>
  Modelled from the spec: \<^verbatim>\<open>app.rag.types.MessageRole\<close> is not part of the sources; the
  spec lists the roles user, assistant and system, and the enumeration's members are
  strings, compared with the stored role by value.
\<close>

definition MessageRole_USER :: string where
  "MessageRole_USER = ''user''"

definition MessageRole_ASSISTANT :: string where
  "MessageRole_ASSISTANT = ''assistant''"

definition MessageRole_SYSTEM :: string where
  "MessageRole_SYSTEM = ''system''"


record chunk =
  chunk_id :: nat
  chunk_document_id :: nat

text \<open>The tables the session reaches; \<open>db_documents\<close> holds (id, name, source_uri) rows.\<close>

record database =
  db_chats :: "db_chat list"
  db_messages :: "db_chat_message list"
  db_documents :: "source_document list"
  db_chunks :: "chunk list"

text \<open>\<^verbatim>\<open>llama_index\<close>'s \<^verbatim>\<open>ChatMessage\<close>: a role and a content.\<close>

record llama_message =
  lm_role :: string
  lm_content :: string

subsection \<open>Events\<close>

text \<open>
  Modelled from the spec: \<^verbatim>\<open>app.rag.types\<close> (\<^verbatim>\<open>ChatEventType\<close>, \<^verbatim>\<open>ChatMessageSate\<close>) and
  \<^verbatim>\<open>app.rag.chat_stream_protocol\<close> (\<^verbatim>\<open>ChatEvent\<close> and its two payload classes) are not
  part of the sources; the spec's wire shape gives four event types and five annotation
  states, and an annotation's display string and context are optional (empty when the
  call site passes none).
\<close>

datatype chat_event_type = TEXT_PART | DATA_PART | MESSAGE_ANNOTATIONS_PART | ERROR_PART

datatype chat_message_state =
  TRACE | REFINE_QUESTION | SEARCH_RELATED_DOCUMENTS | SOURCE_NODES | FINISHED

datatype annotation_context =
  NoContext
  | LangfuseUrl string
  | SourceDocuments "source_document list"

record chat_stream_message_payload =
  ann_state :: chat_message_state
  ann_display :: string
  ann_context :: annotation_context

record chat_stream_data_payload =
  data_chat :: db_chat
  data_user_message :: db_chat_message
  data_assistant_message :: db_chat_message

datatype event_payload =
  StrPayload string
  | MessagePayload chat_stream_message_payload
  | DataPayload chat_stream_data_payload

record chat_event =
  event_type :: chat_event_type
  payload :: event_payload

subsection \<open>Engine configuration\<close>

text \<open>
  Modelled from the spec: \<^verbatim>\<open>app.rag.chat_config.ChatEngineConfig\<close> is not part of the
  sources. The fields are the ones \<^verbatim>\<open>chat.py\<close> reads: the knowledge-graph options, the
  five prompt templates, the optional reranker and the metadata filter.
\<close>

type_synonym meta_filters = "(string \<times> string) list"

record knowledge_graph_option =
  kg_enabled :: bool
  kg_depth :: nat
  kg_include_meta :: bool
  kg_with_degree :: bool
  kg_using_intent_search :: bool
  kg_relationship_meta_filters :: meta_filters

record llm_option =
  intent_graph_knowledge :: string
  normal_graph_knowledge :: string
  condense_question_prompt :: string
  text_qa_prompt :: string
  refine_prompt :: string

datatype metadata_filter = MetadataFilter string

datatype reranker = Reranker string

datatype node_postprocessor =
  MetadataFilterPostprocessor metadata_filter
  | RerankerPostprocessor reranker

record chat_engine_config =
  cfg_llm :: llm_option
  cfg_knowledge_graph :: knowledge_graph_option
  cfg_db_chat_engine_id :: nat
  cfg_screenshot :: string
  cfg_reranker :: "reranker option"
  cfg_metadata_filter :: metadata_filter

text \<open>\<^verbatim>\<open>SiteSetting\<close>: the three tracing credentials, each possibly unset.\<close>

record site_setting =
  langfuse_host :: "string option"
  langfuse_secret_key :: "string option"
  langfuse_public_key :: "string option"

subsection \<open>Collaborators\<close>

text \<open>
  The language models, the graph store, the vector store's query engine, the template
  engine and the tracing backend are external libraries and services. Each call the
  orchestrator makes into them is a function of the call's arguments that returns a
  value or raises.
\<close>

type_synonym llm = string
type_synonym embed_model = string
type_synonym dspy_lm = string
type_synonym entity = string
type_synonym relationship = string

datatype jvalue = JStr string | JList "jvalue list"

type_synonym kwargs = "(string \<times> jvalue) list"

record graph_store =
  gs_dspy_lm :: dspy_lm
  gs_embed_model :: embed_model

text \<open>
  The arguments of \<^verbatim>\<open>retrieve_with_weight\<close>; \<open>rw_relationship_meta_filters\<close> is \<open>None\<close>
  when the call does not pass the keyword, so that the callee's default applies.
\<close>

record retrieve_args =
  rw_query :: string
  rw_embedding :: "nat list"
  rw_depth :: nat
  rw_include_meta :: bool
  rw_with_degree :: bool
  rw_relationship_meta_filters :: "meta_filters option"
  rw_with_chunks :: bool

record intent_search_args =
  is_query :: string
  is_chat_history :: "llama_message list"
  is_include_meta :: bool
  is_relationship_meta_filters :: meta_filters

record intent_result =
  ir_queries :: "string list"
  ir_entities :: "entity list"
  ir_relationships :: "relationship list"

text \<open>The keyword arguments of \<^verbatim>\<open>vector_index.as_query_engine\<close>.\<close>

record query_engine =
  qe_llm :: llm
  qe_embed_model :: embed_model
  qe_node_postprocessors :: "node_postprocessor list"
  qe_streaming :: bool
  qe_text_qa_template :: string
  qe_refine_template :: string
  qe_similarity_top_k :: nat

text \<open>
  A \<^verbatim>\<open>StreamingResponse\<close>: the identifiers of the source nodes, and the token generator as
  the finite list of fragments it produces and the exception, if any, it raises after them.
\<close>

record streaming_response =
  source_nodes :: "nat list"
  response_gen :: "string list"
  response_gen_error :: "exn option"

text \<open>The call sites of the database session inside one turn; each can raise.\<close>

datatype session_op =
  GetChat
  | GetMessages
  | CreateChat
  | CreateHistoryMessage nat
  | CreateUserMessage
  | CreateAssistantMessage
  | SelectSourceDocuments
  | CommitAssistantMessage

record collaborators =
  session_error :: "session_op \<Rightarrow> exn option"
  utc_now :: nat
  load_from_db :: "string \<Rightarrow> exn + chat_engine_config"
  langfuse_trace :: "string \<Rightarrow> string \<Rightarrow> llama_message list \<Rightarrow> exn + (string \<times> string)"
  langfuse_trace_by_id :: "string \<Rightarrow> exn option"
  get_default_embedding_model :: "exn + embed_model"
  get_llama_llm :: "exn + llm"
  get_fast_llama_llm :: "exn + llm"
  get_fast_dspy_lm :: "exn + dspy_lm"
  intent_based_search :: "graph_store \<Rightarrow> intent_search_args \<Rightarrow> exn + intent_result"
  index_retrieve_with_weight ::
    "graph_store \<Rightarrow> retrieve_args \<Rightarrow> exn + (entity list \<times> relationship list \<times> string list)"
  store_retrieve_with_weight ::
    "graph_store \<Rightarrow> retrieve_args \<Rightarrow> exn + (entity list \<times> relationship list \<times> string list)"
  jinja2_render :: "string \<Rightarrow> kwargs \<Rightarrow> exn + string"
  llm_predict :: "llm \<Rightarrow> string \<Rightarrow> exn + string"
  query_engine_query :: "query_engine \<Rightarrow> string \<Rightarrow> exn + streaming_response"

section \<open>Visibility predicate\<close>

text \<open>
  \<^verbatim>\<open>user_can_view_chat\<close>: a UUID and a user object are truthy whenever they are present,
  so the Python condition reads on options as below.
\<close>

definition user_can_view_chat :: "db_chat \<Rightarrow> user option \<Rightarrow> bool" where
  "user_can_view_chat chat usr =
     (if chat_user_id chat \<noteq> None \<and>
         \<not> (case usr of
              None \<Rightarrow> False
            | Some u \<Rightarrow> is_superuser u \<or> chat_user_id chat = Some (user_id u))
      then False
      else True)"

section \<open>Prompt rendering\<close>

text \<open>
  Python's \<^verbatim>\<open>str.replace(old, new)\<close>: the occurrences of \<open>old\<close> are replaced from left to
  right without overlap; an empty \<open>old\<close> matches before every character and at the end.
\<close>

fun str_replace :: "string \<Rightarrow> string \<Rightarrow> string \<Rightarrow> string" where
  "str_replace old new [] = (if old = [] then new else [])"
| "str_replace old new (c # cs) =
     (if old = [] then new @ c # str_replace old new cs
      else if prefix old (c # cs) then new @ str_replace old new (drop (length old) (c # cs))
      else c # str_replace old new cs)"

text \<open>
  \<^verbatim>\<open>get_prompt_by_jinja2_template\<close>: the template is rendered by the template engine
  (\<open>render\<close>, which raises on a malformed template), every brace of the rendered text is
  doubled, and the four markers are turned into format fields. The result stands for
  \<^verbatim>\<open>PromptTemplate(template=...)\<close>.
\<close>

definition get_prompt_by_jinja2_template ::
  "(string \<Rightarrow> kwargs \<Rightarrow> exn + string) \<Rightarrow> string \<Rightarrow> kwargs \<Rightarrow> exn + string" where
  "get_prompt_by_jinja2_template render template_string kw =
     (case render template_string kw of
        Inl e \<Rightarrow> Inl e
      | Inr rendered \<Rightarrow>
          Inr (str_replace ''<<context_msg>>'' ''{context_msg}''
                (str_replace ''<<existing_answer>>'' ''{existing_answer}''
                  (str_replace ''<<context_str>>'' ''{context_str}''
                    (str_replace ''<<query_str>>'' ''{query_str}''
                      (str_replace ''}'' ''}}''
                        (str_replace ''{'' ''{{'' rendered)))))))"

text \<open>
  The downstream prompt formatter reads the template as a Python format string: \<open>{{\<close> and
  \<open>}}\<close> are literal braces, a single \<open>{\<close> opens a replacement field that runs to the
  next \<open>}\<close>, and a single \<open>}\<close> outside a field is malformed. \<open>format_fields\<close> returns the
  names of the replacement fields in order, or \<open>None\<close> for a malformed string.
\<close>

function format_fields :: "string \<Rightarrow> string list option" where
  "format_fields [] = Some []"
| "format_fields (c # cs) =
     (if c = CHR ''{'' then
        (if cs \<noteq> [] \<and> hd cs = CHR ''{'' then format_fields (tl cs)
         else if dropWhile (\<lambda>x. x \<noteq> CHR ''}'') cs = [] then None
         else map_option (Cons (takeWhile (\<lambda>x. x \<noteq> CHR ''}'') cs))
                (format_fields (tl (dropWhile (\<lambda>x. x \<noteq> CHR ''}'') cs))))
      else if c = CHR ''}'' then
        (if cs \<noteq> [] \<and> hd cs = CHR ''}'' then format_fields (tl cs) else None)
      else format_fields cs)"
  by pat_completeness auto
termination
proof (relation "measure length")
  show "wf (measure (length :: string \<Rightarrow> nat))"
    by simp
next
  fix c :: char and cs :: string
  assume "cs \<noteq> [] \<and> hd cs = CHR ''{''"
  then show "(tl cs, c # cs) \<in> measure length"
    by simp
next
  fix c :: char and cs :: string
  have "length (dropWhile (\<lambda>x. x \<noteq> CHR ''}'') cs) \<le> length cs"
    by (rule length_dropWhile_le)
  then show "(tl (dropWhile (\<lambda>x. x \<noteq> CHR ''}'') cs), c # cs) \<in> measure length"
    by simp
next
  fix c :: char and cs :: string
  assume "cs \<noteq> [] \<and> hd cs = CHR ''}''"
  then show "(tl cs, c # cs) \<in> measure length"
    by simp
next
  fix c :: char and cs :: string
  show "(cs, c # cs) \<in> measure length"
    by simp
qed

definition deferred_placeholders :: "string list" where
  "deferred_placeholders = [''query_str'', ''context_str'', ''existing_answer'', ''context_msg'']"

section \<open>The chat service\<close>

record chat_service =
  svc_user :: "user option"
  svc_browser_id :: string
  svc_engine_name :: string
  svc_chat_engine_config :: chat_engine_config
  svc_db_chat_engine_id :: nat
  svc_reranker :: "reranker option"
  svc_metadata_filter :: metadata_filter
  svc_node_postprocessors :: "node_postprocessor list"
  svc_similarity_top_k :: nat
  svc_langfuse_host :: "string option"
  svc_langfuse_secret_key :: "string option"
  svc_langfuse_public_key :: "string option"
  svc_enable_langfuse :: bool

text \<open>Python truthiness of an optional string: unset and the empty string are false.\<close>

definition truthy :: "string option \<Rightarrow> bool" where
  "truthy v = (case v of None \<Rightarrow> False | Some s \<Rightarrow> s \<noteq> [])"

text \<open>
  \<^verbatim>\<open>ChatService.__init__\<close>, given the configuration that \<^verbatim>\<open>ChatEngineConfig.load_from_db\<close>
  returned for the engine name.
\<close>

definition ChatService_init ::
  "chat_engine_config \<Rightarrow> site_setting \<Rightarrow> user option \<Rightarrow> string \<Rightarrow> string \<Rightarrow> chat_service" where
  "ChatService_init config settings usr browser engine =
     (let rr = cfg_reranker config;
          mf = cfg_metadata_filter config
      in \<lparr>svc_user = usr,
          svc_browser_id = browser,
          svc_engine_name = engine,
          svc_chat_engine_config = config,
          svc_db_chat_engine_id = cfg_db_chat_engine_id config,
          svc_reranker = rr,
          svc_metadata_filter = mf,
          svc_node_postprocessors =
            (case rr of
               Some r \<Rightarrow> [MetadataFilterPostprocessor mf, RerankerPostprocessor r]
             | None \<Rightarrow> [MetadataFilterPostprocessor mf]),
          svc_similarity_top_k = (case rr of Some r \<Rightarrow> 100 | None \<Rightarrow> 10),
          svc_langfuse_host = langfuse_host settings,
          svc_langfuse_secret_key = langfuse_secret_key settings,
          svc_langfuse_public_key = langfuse_public_key settings,
          svc_enable_langfuse =
            (truthy (langfuse_host settings) \<and> truthy (langfuse_secret_key settings) \<and>
             truthy (langfuse_public_key settings))\<rparr>)"

subsection \<open>Repository\<close>

text \<open>
  \<^verbatim>\<open>BaseRepo.get\<close> and \<^verbatim>\<open>BaseRepo.create\<close> (\<^verbatim>\<open>app/repositories/base_repo.py\<close>). A session
  call that raises leaves the tables as they were. The identifier of a new row is the
  first number above the ones in use.
\<close>

definition chat_repo_get :: "collaborators \<Rightarrow> database \<Rightarrow> uuid \<Rightarrow> exn + db_chat option" where
  "chat_repo_get env db cid =
     (case session_error env GetChat of
        Some e \<Rightarrow> Inl e
      | None \<Rightarrow> Inr (find (\<lambda>c. chat_id c = cid) (db_chats db)))"

definition fresh_chat_id :: "database \<Rightarrow> uuid" where
  "fresh_chat_id db = Suc (fold max (map chat_id (db_chats db)) 0)"

definition chat_repo_create ::
  "collaborators \<Rightarrow> database \<Rightarrow> db_chat \<Rightarrow> database \<times> (exn + db_chat)" where
  "chat_repo_create env db obj =
     (case session_error env CreateChat of
        Some e \<Rightarrow> (db, Inl e)
      | None \<Rightarrow>
          (let c = obj\<lparr>chat_id := fresh_chat_id db\<rparr>
           in (db\<lparr>db_chats := db_chats db @ [c]\<rparr>, Inr c)))"

text \<open>
  Modelled from the spec: \<^verbatim>\<open>chat_repo.get_messages\<close> and \<^verbatim>\<open>chat_repo.create_message\<close> are
  not part of the sources. By the spec the first returns the chat's messages in order,
  and the second inserts the message as a committed unit of its own and returns it, with
  ordinals strictly increasing within a chat: a message that carries no ordinal gets the
  chat's greatest ordinal plus one.
\<close>

definition chat_repo_get_messages ::
  "collaborators \<Rightarrow> database \<Rightarrow> db_chat \<Rightarrow> exn + db_chat_message list" where
  "chat_repo_get_messages env db chat =
     (case session_error env GetMessages of
        Some e \<Rightarrow> Inl e
      | None \<Rightarrow>
          Inr (sort_key message_ordinal
                 (filter (\<lambda>m. message_chat_id m = chat_id chat) (db_messages db))))"

definition fresh_message_id :: "database \<Rightarrow> nat" where
  "fresh_message_id db = Suc (fold max (map message_id (db_messages db)) 0)"

definition last_ordinal :: "database \<Rightarrow> db_chat \<Rightarrow> nat" where
  "last_ordinal db chat =
     fold max (map message_ordinal
       (filter (\<lambda>m. message_chat_id m = chat_id chat) (db_messages db))) 0"

definition chat_repo_create_message ::
  "collaborators \<Rightarrow> session_op \<Rightarrow> database \<Rightarrow> db_chat \<Rightarrow> db_chat_message \<Rightarrow>
     database \<times> (exn + db_chat_message)" where
  "chat_repo_create_message env op db chat chat_message =
     (case session_error env op of
        Some e \<Rightarrow> (db, Inl e)
      | None \<Rightarrow>
          (let m = chat_message
                 \<lparr>message_id := fresh_message_id db,
                  message_chat_id := chat_id chat,
                  message_ordinal :=
                    (if message_ordinal chat_message = 0 then last_ordinal db chat + 1
                     else message_ordinal chat_message)\<rparr>
           in (db\<lparr>db_messages := db_messages db @ [m]\<rparr>, Inr m)))"

text \<open>The constructor \<^verbatim>\<open>DBChatMessage(role=, content=, ordinal=, trace_url=)\<close>.\<close>

definition DBChatMessage :: "string \<Rightarrow> string \<Rightarrow> nat \<Rightarrow> string option \<Rightarrow> db_chat_message" where
  "DBChatMessage r c ord url =
     \<lparr>message_id = 0, message_chat_id = 0, message_role = r, message_content = c,
      message_ordinal = ord, message_trace_url = url, message_sources = [],
      message_updated_at = None, message_finished_at = None\<rparr>"

subsection \<open>Event constructors\<close>

definition text_part :: "string \<Rightarrow> chat_event" where
  "text_part s = \<lparr>event_type = TEXT_PART, payload = StrPayload s\<rparr>"

definition error_part :: "string \<Rightarrow> chat_event" where
  "error_part s = \<lparr>event_type = ERROR_PART, payload = StrPayload s\<rparr>"

definition data_part :: "db_chat \<Rightarrow> db_chat_message \<Rightarrow> db_chat_message \<Rightarrow> chat_event" where
  "data_part c um am =
     \<lparr>event_type = DATA_PART,
      payload = DataPayload
        \<lparr>data_chat = c, data_user_message = um, data_assistant_message = am\<rparr>\<rparr>"

definition annotation_part ::
  "chat_message_state \<Rightarrow> string \<Rightarrow> annotation_context \<Rightarrow> chat_event" where
  "annotation_part st disp ctx =
     \<lparr>event_type = MESSAGE_ANNOTATIONS_PART,
      payload = MessagePayload \<lparr>ann_state = st, ann_display = disp, ann_context = ctx\<rparr>\<rparr>"

definition generic_error_message :: string where
  "generic_error_message =
     ''Encountered an error while processing the chat. Please try again later.''"

subsection \<open>The stages of one turn\<close>

text \<open>
  \<^verbatim>\<open>ChatService._parse_chat_messages\<close>: \<^verbatim>\<open>chat_messages[-1]\<close> raises \<^verbatim>\<open>IndexError\<close> on the
  empty list.
\<close>

definition parse_chat_messages :: "llama_message list \<Rightarrow> exn + (string \<times> llama_message list)" where
  "parse_chat_messages chat_messages =
     (case chat_messages of
        [] \<Rightarrow> Inl IndexError
      | _ # _ \<Rightarrow> Inr (lm_content (last chat_messages), butlast chat_messages))"

text \<open>
  The loop of \<^verbatim>\<open>_chat\<close> that stores the history of a new chat, \<open>i\<close> counting from \<open>0\<close>; it
  stops at the first insert that raises.
\<close>

fun create_history_messages ::
  "collaborators \<Rightarrow> database \<Rightarrow> db_chat \<Rightarrow> nat \<Rightarrow> llama_message list \<Rightarrow> database \<times> exn option" where
  "create_history_messages env db chat i [] = (db, None)"
| "create_history_messages env db chat i (m # ms) =
     (case chat_repo_create_message env (CreateHistoryMessage i) db chat
             (DBChatMessage (lm_role m) (lm_content m) (i + 1) None) of
        (db', Inl e) \<Rightarrow> (db', Some e)
      | (db', Inr _) \<Rightarrow> create_history_messages env db' chat (i + 1) ms)"

text \<open>
  The first branch of \<^verbatim>\<open>_chat\<close>: an existing chat is loaded with its stored history, a
  missing one gives \<open>Inr None\<close> (the generator then yields "Chat not found" and returns),
  and without an identifier a new chat is created and seeded with the caller's history.
\<close>

definition resolve_chat ::
  "collaborators \<Rightarrow> chat_service \<Rightarrow> database \<Rightarrow> string \<Rightarrow> llama_message list \<Rightarrow> uuid option \<Rightarrow>
     database \<times> (exn + (db_chat \<times> llama_message list) option)" where
  "resolve_chat env svc db user_question chat_history cid =
     (case cid of
        Some i \<Rightarrow>
          (case chat_repo_get env db i of
             Inl e \<Rightarrow> (db, Inl e)
           | Inr None \<Rightarrow> (db, Inr None)
           | Inr (Some db_chat_obj) \<Rightarrow>
               (case chat_repo_get_messages env db db_chat_obj of
                  Inl e \<Rightarrow> (db, Inl e)
                | Inr ms \<Rightarrow>
                    (db, Inr (Some (db_chat_obj,
                       map (\<lambda>m. \<lparr>lm_role = message_role m, lm_content = message_content m\<rparr>) ms)))))
      | None \<Rightarrow>
          (case chat_repo_create env db
                  \<lparr>chat_id = 0,
                   chat_title = take 100 user_question,
                   chat_engine_id = svc_db_chat_engine_id svc,
                   chat_engine_name = svc_engine_name svc,
                   chat_engine_options = cfg_screenshot (svc_chat_engine_config svc),
                   chat_deleted_at = None,
                   chat_user_id = (case svc_user svc of Some u \<Rightarrow> Some (user_id u) | None \<Rightarrow> None),
                   chat_browser_id = svc_browser_id svc\<rparr> of
             (db', Inl e) \<Rightarrow> (db', Inl e)
           | (db', Inr db_chat_obj) \<Rightarrow>
               (case create_history_messages env db' db_chat_obj 0 chat_history of
                  (db'', Some e) \<Rightarrow> (db'', Inl e)
                | (db'', None) \<Rightarrow> (db'', Inr (Some (db_chat_obj, chat_history))))))"

text \<open>The tracing block: the trace identifier and URL, both empty without Langfuse.\<close>

definition start_trace ::
  "collaborators \<Rightarrow> chat_service \<Rightarrow> string \<Rightarrow> llama_message list \<Rightarrow> exn + (string \<times> string)" where
  "start_trace env svc user_question chat_history =
     (if svc_enable_langfuse svc then
        langfuse_trace env
          (case svc_user svc of
             Some u \<Rightarrow> user_email u
           | None \<Rightarrow> ''anonymous-'' @ svc_browser_id svc)
          user_question chat_history
      else Inr ([], []))"

text \<open>The two inserts: the user message, then the assistant message with empty content.\<close>

definition persist_user_turn ::
  "collaborators \<Rightarrow> database \<Rightarrow> db_chat \<Rightarrow> string \<Rightarrow> string \<Rightarrow>
     database \<times> (exn + (db_chat_message \<times> db_chat_message))" where
  "persist_user_turn env db db_chat_obj user_question trace_url =
     (case chat_repo_create_message env CreateUserMessage db db_chat_obj
             (DBChatMessage MessageRole_USER user_question 0 None) of
        (db', Inl e) \<Rightarrow> (db', Inl e)
      | (db', Inr db_user_message) \<Rightarrow>
          (case chat_repo_create_message env CreateAssistantMessage db' db_chat_obj
                  (DBChatMessage MessageRole_ASSISTANT [] 0 (Some trace_url)) of
             (db'', Inl e) \<Rightarrow> (db'', Inl e)
           | (db'', Inr db_assistant_message) \<Rightarrow>
               (db'', Inr (db_user_message, db_assistant_message))))"

record models =
  m_embed_model :: embed_model
  m_llm :: llm
  m_fast_llm :: llm
  m_fast_dspy_lm :: dspy_lm

definition load_models :: "collaborators \<Rightarrow> exn + models" where
  "load_models env =
     (case get_default_embedding_model env of
        Inl e \<Rightarrow> Inl e
      | Inr em \<Rightarrow>
          (case get_llama_llm env of
             Inl e \<Rightarrow> Inl e
           | Inr l \<Rightarrow>
               (case get_fast_llama_llm env of
                  Inl e \<Rightarrow> Inl e
                | Inr fl \<Rightarrow>
                    (case get_fast_dspy_lm env of
                       Inl e \<Rightarrow> Inl e
                     | Inr dl \<Rightarrow>
                         Inr \<lparr>m_embed_model = em, m_llm = l, m_fast_llm = fl,
                              m_fast_dspy_lm = dl\<rparr>))))"

text \<open>
  \<^verbatim>\<open>_get_llamaindex_callback_manager\<close>: with Langfuse the trace is looked up again, which
  can raise; the result is \<open>Some e\<close> for a raise.
\<close>

definition get_llamaindex_callback_manager ::
  "collaborators \<Rightarrow> chat_service \<Rightarrow> string \<Rightarrow> exn option" where
  "get_llamaindex_callback_manager env svc trace_id =
     (if svc_enable_langfuse svc then langfuse_trace_by_id env trace_id else None)"

text \<open>
  Step 1 of \<^verbatim>\<open>_chat\<close>, from the read of the knowledge-graph options on: entities, relationships, chunks and the rendered graph knowledge.
  The intent branch of the source leaves \<^verbatim>\<open>chunks\<close> unassigned and never reads it; the
  model returns the empty list there.
\<close>

definition retrieve_knowledge ::
  "collaborators \<Rightarrow> chat_service \<Rightarrow> models \<Rightarrow> string \<Rightarrow> llama_message list \<Rightarrow>
     exn + (entity list \<times> relationship list \<times> string list \<times> string)" where
  "retrieve_knowledge env svc ms user_question chat_history =
     (let kg_config = cfg_knowledge_graph (svc_chat_engine_config svc);
          gs = \<lparr>gs_dspy_lm = m_fast_dspy_lm ms, gs_embed_model = m_embed_model ms\<rparr>
      in if kg_enabled kg_config then
           (if kg_using_intent_search kg_config then
              (case intent_based_search env gs
                      \<lparr>is_query = user_question,
                       is_chat_history = chat_history,
                       is_include_meta = True,
                       is_relationship_meta_filters =
                         kg_relationship_meta_filters kg_config\<rparr> of
                 Inl e \<Rightarrow> Inl e
               | Inr result \<Rightarrow>
                   (case get_prompt_by_jinja2_template (jinja2_render env)
                           (intent_graph_knowledge (cfg_llm (svc_chat_engine_config svc)))
                           [(''sub_queries'', JList (map JStr (ir_queries result)))] of
                      Inl e \<Rightarrow> Inl e
                    | Inr graph_knowledges \<Rightarrow>
                        Inr (ir_entities result, ir_relationships result, [],
                             graph_knowledges)))
            else
              (case index_retrieve_with_weight env gs
                      \<lparr>rw_query = user_question,
                       rw_embedding = [],
                       rw_depth = kg_depth kg_config,
                       rw_include_meta = kg_include_meta kg_config,
                       rw_with_degree = kg_with_degree kg_config,
                       rw_relationship_meta_filters =
                         Some (kg_relationship_meta_filters kg_config),
                       rw_with_chunks = False\<rparr> of
                 Inl e \<Rightarrow> Inl e
               | Inr (entities, relations, chunks) \<Rightarrow>
                   (case get_prompt_by_jinja2_template (jinja2_render env)
                           (normal_graph_knowledge (cfg_llm (svc_chat_engine_config svc)))
                           [(''entities'', JList (map JStr entities)),
                            (''relationships'', JList (map JStr relations))] of
                      Inl e \<Rightarrow> Inl e
                    | Inr graph_knowledges \<Rightarrow>
                        Inr (entities, relations, chunks, graph_knowledges))))
         else Inr ([], [], [], []))"

definition history_value :: "llama_message list \<Rightarrow> jvalue" where
  "history_value chat_history =
     JList (map (\<lambda>m. JList [JStr (lm_role m), JStr (lm_content m)]) chat_history)"

text \<open>Step 2: the fast language model condenses the question.\<close>

definition refine_question ::
  "collaborators \<Rightarrow> chat_service \<Rightarrow> models \<Rightarrow> string \<Rightarrow> string \<Rightarrow> llama_message list \<Rightarrow>
     exn + string" where
  "refine_question env svc ms graph_knowledges_context user_question chat_history =
     (case get_prompt_by_jinja2_template (jinja2_render env)
             (condense_question_prompt (cfg_llm (svc_chat_engine_config svc)))
             [(''graph_knowledges'', JStr graph_knowledges_context),
              (''chat_history'', history_value chat_history),
              (''question'', JStr user_question)] of
        Inl e \<Rightarrow> Inl e
      | Inr prompt \<Rightarrow> llm_predict env (m_fast_llm ms) prompt)"

text \<open>\<^verbatim>\<open>vector_index.as_query_engine(...)\<close> with the keyword arguments of the source.\<close>

definition as_query_engine :: "chat_service \<Rightarrow> models \<Rightarrow> string \<Rightarrow> string \<Rightarrow> query_engine" where
  "as_query_engine svc ms text_qa_template refine_template =
     \<lparr>qe_llm = m_llm ms,
      qe_embed_model = m_embed_model ms,
      qe_node_postprocessors = svc_node_postprocessors svc,
      qe_streaming = True,
      qe_text_qa_template = text_qa_template,
      qe_refine_template = refine_template,
      qe_similarity_top_k = svc_similarity_top_k svc\<rparr>"

text \<open>
  \<^verbatim>\<open>ChatService._get_source_documents\<close>: the documents that own a chunk whose identifier is
  among the source nodes, each document once.
\<close>

definition get_source_documents ::
  "collaborators \<Rightarrow> database \<Rightarrow> streaming_response \<Rightarrow> exn + source_document list" where
  "get_source_documents env db response =
     (case session_error env SelectSourceDocuments of
        Some e \<Rightarrow> Inl e
      | None \<Rightarrow>
          Inr (filter
                 (\<lambda>d. doc_id d \<in> set (map chunk_document_id
                          (filter (\<lambda>c. chunk_id c \<in> set (source_nodes response)) (db_chunks db))))
                 (db_documents db)))"

text \<open>Steps 3 to 5 up to the query: the two templates, the query engine, the query.\<close>

definition search_related_documents ::
  "collaborators \<Rightarrow> chat_service \<Rightarrow> database \<Rightarrow> models \<Rightarrow> string \<Rightarrow> string \<Rightarrow>
     exn + (streaming_response \<times> source_document list)" where
  "search_related_documents env svc db ms graph_knowledges_context refined_question =
     (case get_prompt_by_jinja2_template (jinja2_render env)
             (text_qa_prompt (cfg_llm (svc_chat_engine_config svc)))
             [(''graph_knowledges'', JStr graph_knowledges_context)] of
        Inl e \<Rightarrow> Inl e
      | Inr text_qa_template \<Rightarrow>
          (case get_prompt_by_jinja2_template (jinja2_render env)
                  (refine_prompt (cfg_llm (svc_chat_engine_config svc)))
                  [(''graph_knowledges'', JStr graph_knowledges_context)] of
             Inl e \<Rightarrow> Inl e
           | Inr refine_template \<Rightarrow>
               (case query_engine_query env
                       (as_query_engine svc ms text_qa_template refine_template)
                       refined_question of
                  Inl e \<Rightarrow> Inl e
                | Inr response \<Rightarrow>
                    (case get_source_documents env db response of
                       Inl e \<Rightarrow> Inl e
                     | Inr source_documents \<Rightarrow> Inr (response, source_documents)))))"

text \<open>
  The update of the assistant message and its commit, the single commit point of the
  answer. A commit that raises leaves the stored message as it was.
\<close>

definition finalize_assistant_message ::
  "collaborators \<Rightarrow> database \<Rightarrow> db_chat_message \<Rightarrow> source_document list \<Rightarrow> string \<Rightarrow>
     database \<times> (exn + db_chat_message)" where
  "finalize_assistant_message env db db_assistant_message source_documents response_text =
     (case session_error env CommitAssistantMessage of
        Some e \<Rightarrow> (db, Inl e)
      | None \<Rightarrow>
          (let m = db_assistant_message
                 \<lparr>message_sources := source_documents,
                  message_content := response_text,
                  message_updated_at := Some (utc_now env),
                  message_finished_at := Some (utc_now env)\<rparr>
           in (db\<lparr>db_messages :=
                   map (\<lambda>x. if message_id x = message_id m then m else x) (db_messages db)\<rparr>,
               Inr m)))"

subsection \<open>The generator and its wrapper\<close>

datatype outcome = Returned | Raised exn

text \<open>
  The part of \<^verbatim>\<open>_chat\<close> after the two inserts: the events it yields, the tables it leaves
  and how it ends. An exception ends the generator after the events yielded so far.
\<close>

definition answer_turn ::
  "collaborators \<Rightarrow> chat_service \<Rightarrow> database \<Rightarrow> db_chat \<Rightarrow> string \<Rightarrow> llama_message list \<Rightarrow>
     string \<Rightarrow> string \<Rightarrow> db_chat_message \<Rightarrow> db_chat_message \<Rightarrow>
     chat_event list \<times> database \<times> outcome" where
  "answer_turn env svc db db_chat_obj user_question chat_history trace_id trace_url
       db_user_message db_assistant_message =
     (case load_models env of
        Inl e \<Rightarrow> ([], db, Raised e)
      | Inr ms \<Rightarrow>
     (let evs0 =
            [text_part [],
             data_part db_chat_obj db_user_message db_assistant_message,
             annotation_part TRACE ''Start knowledge graph searching ...''
               (LangfuseUrl trace_url)]
      in case get_llamaindex_callback_manager env svc trace_id of
        Some e \<Rightarrow> (evs0, db, Raised e)
      | None \<Rightarrow>
     (case retrieve_knowledge env svc ms user_question chat_history of
        Inl e \<Rightarrow> (evs0, db, Raised e)
      | Inr (entities, relations, chunks, graph_knowledges_context) \<Rightarrow>
     (let evs1 = evs0 @ [annotation_part REFINE_QUESTION ''Refine the user question ...'' NoContext]
      in case get_llamaindex_callback_manager env svc trace_id of
        Some e \<Rightarrow> (evs1, db, Raised e)
      | None \<Rightarrow>
     (case refine_question env svc ms graph_knowledges_context user_question chat_history of
        Inl e \<Rightarrow> (evs1, db, Raised e)
      | Inr refined_question \<Rightarrow>
     (let evs2 = evs1 @
            [annotation_part SEARCH_RELATED_DOCUMENTS ''Search related documents ...'' NoContext]
      in case get_llamaindex_callback_manager env svc trace_id of
        Some e \<Rightarrow> (evs2, db, Raised e)
      | None \<Rightarrow>
     (case search_related_documents env svc db ms graph_knowledges_context refined_question of
        Inl e \<Rightarrow> (evs2, db, Raised e)
      | Inr (response, source_documents) \<Rightarrow>
     (let evs3 = evs2 @ [annotation_part SOURCE_NODES [] (SourceDocuments source_documents)]
                   @ map text_part (response_gen response);
          response_text = concat (response_gen response)
      in case response_gen_error response of
        Some e \<Rightarrow> (evs3, db, Raised e)
      | None \<Rightarrow>
     (case finalize_assistant_message env db db_assistant_message source_documents
             response_text of
        (db', Inl e) \<Rightarrow> (evs3, db', Raised e)
      | (db', Inr finished_message) \<Rightarrow>
          (evs3 @ [annotation_part FINISHED [] NoContext,
                   data_part db_chat_obj db_user_message finished_message],
           db', Returned))))))))))"

text \<open>\<^verbatim>\<open>ChatService._chat\<close>.\<close>

definition chat_inner ::
  "collaborators \<Rightarrow> chat_service \<Rightarrow> database \<Rightarrow> llama_message list \<Rightarrow> uuid option \<Rightarrow>
     chat_event list \<times> database \<times> outcome" where
  "chat_inner env svc db chat_messages cid =
     (case parse_chat_messages chat_messages of
        Inl e \<Rightarrow> ([], db, Raised e)
      | Inr (user_question, chat_history0) \<Rightarrow>
     (case resolve_chat env svc db user_question chat_history0 cid of
        (db1, Inl e) \<Rightarrow> ([], db1, Raised e)
      | (db1, Inr None) \<Rightarrow> ([error_part ''Chat not found''], db1, Returned)
      | (db1, Inr (Some (db_chat_obj, chat_history))) \<Rightarrow>
     (case start_trace env svc user_question chat_history of
        Inl e \<Rightarrow> ([], db1, Raised e)
      | Inr (trace_id, trace_url) \<Rightarrow>
     (case persist_user_turn env db1 db_chat_obj user_question trace_url of
        (db2, Inl e) \<Rightarrow> ([], db2, Raised e)
      | (db2, Inr (db_user_message, db_assistant_message)) \<Rightarrow>
          answer_turn env svc db2 db_chat_obj user_question chat_history trace_id trace_url
            db_user_message db_assistant_message))))"

text \<open>
  \<^verbatim>\<open>ChatService.chat\<close>: the events of \<^verbatim>\<open>_chat\<close> are passed on, and an exception becomes one
  closing error event. The result is the whole stream, consumed to its end, and the
  tables after the turn.
\<close>

definition chat ::
  "collaborators \<Rightarrow> chat_service \<Rightarrow> database \<Rightarrow> llama_message list \<Rightarrow> uuid option \<Rightarrow>
     chat_event list \<times> database" where
  "chat env svc db chat_messages cid =
     (case chat_inner env svc db chat_messages cid of
        (evs, db', Returned) \<Rightarrow> (evs, db')
      | (evs, db', Raised e) \<Rightarrow> (evs @ [error_part generic_error_message], db'))"

section \<open>Message subgraph lookup\<close>

text \<open>
  \<^verbatim>\<open>get_chat_message_subgraph\<close>. The message's chat is the row its \<^verbatim>\<open>chat\<close> relationship
  loads; reading \<^verbatim>\<open>chat.engine\<close> of a missing chat raises.
\<close>

definition get_chat_message_subgraph ::
  "collaborators \<Rightarrow> database \<Rightarrow> db_chat_message \<Rightarrow> exn + (entity list \<times> relationship list)" where
  "get_chat_message_subgraph env db chat_message =
     (if message_role chat_message \<noteq> MessageRole_USER then Inr ([], [])
      else
        (case find (\<lambda>c. chat_id c = message_chat_id chat_message) (db_chats db) of
           None \<Rightarrow> Inl (OtherError ''AttributeError'')
         | Some c \<Rightarrow>
             (case load_from_db env (chat_engine_name c) of
                Inl e \<Rightarrow> Inl e
              | Inr chat_engine_config \<Rightarrow>
                  (let kg_config = cfg_knowledge_graph chat_engine_config
                   in case get_fast_dspy_lm env of
                        Inl e \<Rightarrow> Inl e
                      | Inr dl \<Rightarrow>
                          (case get_default_embedding_model env of
                             Inl e \<Rightarrow> Inl e
                           | Inr em \<Rightarrow>
                               (case store_retrieve_with_weight env
                                       \<lparr>gs_dspy_lm = dl, gs_embed_model = em\<rparr>
                                       \<lparr>rw_query = message_content chat_message,
                                        rw_embedding = [],
                                        rw_depth = kg_depth kg_config,
                                        rw_include_meta = kg_include_meta kg_config,
                                        rw_with_degree = kg_with_degree kg_config,
                                        rw_relationship_meta_filters = None,
                                        rw_with_chunks = False\<rparr> of
                                  Inl e \<Rightarrow> Inl e
                                | Inr (entities, relations, chunks) \<Rightarrow>
                                    Inr (entities, relations)))))))"

section \<open>Observations on an event stream\<close>

definition count_events :: "chat_event_type \<Rightarrow> chat_event list \<Rightarrow> nat" where
  "count_events t evs = length (filter (\<lambda>e. event_type e = t) evs)"

definition is_annotation :: "chat_message_state \<Rightarrow> chat_event \<Rightarrow> bool" where
  "is_annotation st e =
     (event_type e = MESSAGE_ANNOTATIONS_PART \<and>
      (case payload e of MessagePayload p \<Rightarrow> ann_state p = st | _ \<Rightarrow> False))"

definition count_annotations :: "chat_message_state \<Rightarrow> chat_event list \<Rightarrow> nat" where
  "count_annotations st evs = length (filter (is_annotation st) evs)"

text \<open>The stream ends with a FINISHED annotation followed by a data event.\<close>

definition ends_with_completion :: "chat_event list \<Rightarrow> bool" where
  "ends_with_completion evs =
     (case rev evs of
        d # f # _ \<Rightarrow> event_type d = DATA_PART \<and> is_annotation FINISHED f
      | _ \<Rightarrow> False)"

text \<open>The stream ends with an error event.\<close>

definition ends_with_error :: "chat_event list \<Rightarrow> bool" where
  "ends_with_error evs =
     (case rev evs of e # _ \<Rightarrow> event_type e = ERROR_PART | [] \<Rightarrow> False)"

text \<open>
  The three events every turn yields first once its messages are stored: the empty text,
  the data snapshot and the TRACE annotation.
\<close>

definition opening_events ::
  "db_chat \<Rightarrow> db_chat_message \<Rightarrow> db_chat_message \<Rightarrow> string \<Rightarrow> chat_event list" where
  "opening_events c um am url =
     [text_part [], data_part c um am,
      annotation_part TRACE ''Start knowledge graph searching ...'' (LangfuseUrl url)]"

text \<open>A call that returns rather than raises.\<close>

definition returns :: "exn + 'a \<Rightarrow> bool" where
  "returns r = (case r of Inl _ \<Rightarrow> False | Inr _ \<Rightarrow> True)"

text \<open>
  Every collaborator call of a turn without knowledge graph returns: the session, the
  tracing backend, the model factories, the template engine, the fast language model,
  and the query engine together with its token generator.
\<close>

definition collaborators_return :: "collaborators \<Rightarrow> bool" where
  "collaborators_return env =
     ((\<forall>op. session_error env op = None) \<and>
      (\<forall>u q h. returns (langfuse_trace env u q h)) \<and>
      (\<forall>t. langfuse_trace_by_id env t = None) \<and>
      returns (get_default_embedding_model env) \<and>
      returns (get_llama_llm env) \<and>
      returns (get_fast_llama_llm env) \<and>
      returns (get_fast_dspy_lm env) \<and>
      (\<forall>t kw. returns (jinja2_render env t kw)) \<and>
      (\<forall>l p. returns (llm_predict env l p)) \<and>
      (\<forall>qe q. case query_engine_query env qe q of
                 Inl _ \<Rightarrow> False
               | Inr r \<Rightarrow> response_gen_error r = None))"

section \<open>A token view of rendered prompts\<close>

text \<open>
  The output of \<open>get_prompt_by_jinja2_template\<close> read as a list of tokens: a character of
  the rendered text, written with its braces doubled, or a restored placeholder, written
  as a format field. \<open>restore\<close> is the replacement of a marker by its placeholder on
  tokens.
\<close>

datatype prompt_token = Ch char | Placeholder string

fun emit :: "prompt_token \<Rightarrow> string" where
  "emit (Ch c) = (if c = CHR ''{'' then ''{{'' else if c = CHR ''}'' then ''}}'' else [c])"
| "emit (Placeholder n) = CHR ''{'' # n @ ''}''"

definition flat :: "prompt_token list \<Rightarrow> string" where
  "flat ts = concat (map emit ts)"

fun restore :: "string \<Rightarrow> string \<Rightarrow> prompt_token list \<Rightarrow> prompt_token list" where
  "restore marker name [] = []"
| "restore marker name (t # ts) =
     (if marker \<noteq> [] \<and> prefix (map Ch marker) (t # ts)
      then Placeholder name # restore marker name (drop (length marker) (t # ts))
      else t # restore marker name ts)"

fun fields_of :: "prompt_token list \<Rightarrow> string list" where
  "fields_of [] = []"
| "fields_of (Ch c # ts) = fields_of ts"
| "fields_of (Placeholder n # ts) = n # fields_of ts"

definition marker_free :: "string \<Rightarrow> prompt_token list \<Rightarrow> bool" where
  "marker_free marker ts = (\<forall>n. Placeholder n \<in> set ts \<longrightarrow> hd marker \<notin> set n)"

text \<open>The tokens of the prompt made from a rendered text: the four markers restored in
  the order of the source.\<close>

definition prompt_tokens :: "string \<Rightarrow> prompt_token list" where
  "prompt_tokens rendered =
     restore ''<<context_msg>>'' ''context_msg''
       (restore ''<<existing_answer>>'' ''existing_answer''
         (restore ''<<context_str>>'' ''context_str''
           (restore ''<<query_str>>'' ''query_str'' (map Ch rendered))))"

definition brace_free :: "string \<Rightarrow> bool" where
  "brace_free s = (CHR ''{'' \<notin> set s \<and> CHR ''}'' \<notin> set s)"

section \<open>Concrete collaborators and inputs\<close>

text \<open>
  A template engine for the templates of the examples: a template of the form
  \<open>{{ name }}\<close> renders to the string bound to \<open>name\<close> (to the empty string when
  unbound), and every other template renders to itself.
\<close>

definition render_variable :: "string \<Rightarrow> kwargs \<Rightarrow> exn + string" where
  "render_variable t kw =
     (if prefix ''{{ '' t \<and> suffix '' }}'' t then
        (case map_of kw (take (length t - 6) (drop 3 t)) of
           Some (JStr s) \<Rightarrow> Inr s
         | _ \<Rightarrow> Inr [])
      else Inr t)"

definition demo_config :: chat_engine_config where
  "demo_config =
     \<lparr>cfg_llm =
        \<lparr>intent_graph_knowledge = ''{{ sub_queries }}'',
         normal_graph_knowledge = ''{{ entities }}'',
         condense_question_prompt = ''{{ question }}'',
         text_qa_prompt = ''{{ graph_knowledges }}'',
         refine_prompt = ''<<existing_answer>>''\<rparr>,
      cfg_knowledge_graph =
        \<lparr>kg_enabled = False, kg_depth = 2, kg_include_meta = False, kg_with_degree = False,
         kg_using_intent_search = False,
         kg_relationship_meta_filters = [(''topic'', ''storage'')]\<rparr>,
      cfg_db_chat_engine_id = 1,
      cfg_screenshot = ''{}'',
      cfg_reranker = None,
      cfg_metadata_filter = MetadataFilter ''all''\<rparr>"

definition demo_settings :: site_setting where
  "demo_settings =
     \<lparr>langfuse_host = None, langfuse_secret_key = None, langfuse_public_key = None\<rparr>"

text \<open>
  A graph store that returns two relationships, and only the first when a non-empty
  relationship filter is passed.
\<close>

definition demo_retrieve ::
  "graph_store \<Rightarrow> retrieve_args \<Rightarrow> exn + (entity list \<times> relationship list \<times> string list)" where
  "demo_retrieve gs a =
     Inr ([''TiDB''],
          (case rw_relationship_meta_filters a of
             Some (f # fs) \<Rightarrow> [''TiDB stores rows'']
           | _ \<Rightarrow> [''TiDB stores rows'', ''TiDB has a logo'']),
          [])"

definition demo_response :: streaming_response where
  "demo_response =
     \<lparr>source_nodes = [5], response_gen = [''X is '', ''a thing.''],
      response_gen_error = None\<rparr>"

definition demo_collaborators :: collaborators where
  "demo_collaborators =
     \<lparr>session_error = (\<lambda>op. None),
      utc_now = 1000,
      load_from_db = (\<lambda>name. Inr demo_config),
      langfuse_trace = (\<lambda>u q h. Inr (''t1'', ''http://trace/t1'')),
      langfuse_trace_by_id = (\<lambda>t. None),
      get_default_embedding_model = Inr ''embed'',
      get_llama_llm = Inr ''llm'',
      get_fast_llama_llm = Inr ''fast'',
      get_fast_dspy_lm = Inr ''dspy'',
      intent_based_search =
        (\<lambda>gs a. Inr \<lparr>ir_queries = [is_query a], ir_entities = [''TiDB''],
                       ir_relationships = [''TiDB stores rows'']\<rparr>),
      index_retrieve_with_weight = demo_retrieve,
      store_retrieve_with_weight = demo_retrieve,
      jinja2_render = render_variable,
      llm_predict = (\<lambda>l p. Inr p),
      query_engine_query = (\<lambda>qe q. Inr demo_response)\<rparr>"

text \<open>The same collaborators with a fast language model that raises.\<close>

definition failing_llm_collaborators :: collaborators where
  "failing_llm_collaborators =
     demo_collaborators\<lparr>llm_predict := (\<lambda>l p. Inl (UpstreamCallError ''timeout''))\<rparr>"

definition demo_service :: chat_service where
  "demo_service = ChatService_init demo_config demo_settings None ''browser-1'' ''default''"

definition demo_database :: database where
  "demo_database =
     \<lparr>db_chats = [], db_messages = [],
      db_documents = [\<lparr>doc_id = 3, doc_name = ''intro'', doc_source_uri = ''http://docs/intro''\<rparr>],
      db_chunks = [\<lparr>chunk_id = 5, chunk_document_id = 3\<rparr>]\<rparr>"

definition demo_messages :: "llama_message list" where
  "demo_messages = [\<lparr>lm_role = ''user'', lm_content = ''What is X?''\<rparr>]"

definition anonymous_chat :: db_chat where
  "anonymous_chat =
     \<lparr>chat_id = 1, chat_title = ''What is X?'', chat_engine_id = 1,
      chat_engine_name = ''default'', chat_engine_options = ''{}'', chat_deleted_at = None,
      chat_user_id = None, chat_browser_id = ''browser-1''\<rparr>"

definition owned_chat :: db_chat where
  "owned_chat = anonymous_chat\<lparr>chat_id := 2, chat_user_id := Some 7\<rparr>"

definition alice :: user where
  "alice = \<lparr>user_id = 7, user_email = ''alice@example.com'', is_superuser = False\<rparr>"

definition bob :: user where
  "bob = \<lparr>user_id = 8, user_email = ''bob@example.com'', is_superuser = False\<rparr>"

definition root_user :: user where
  "root_user = \<lparr>user_id = 9, user_email = ''root@example.com'', is_superuser = True\<rparr>"

definition reranking_config :: chat_engine_config where
  "reranking_config = demo_config\<lparr>cfg_reranker := Some (Reranker ''jina'')\<rparr>"

definition demo_models :: models where
  "demo_models =
     \<lparr>m_embed_model = ''embed'', m_llm = ''llm'', m_fast_llm = ''fast'', m_fast_dspy_lm = ''dspy''\<rparr>"

text \<open>The rows of the first turn of a new chat on \<open>demo_database\<close>.\<close>

definition stored_user_message :: db_chat_message where
  "stored_user_message =
     \<lparr>message_id = 1, message_chat_id = 1, message_role = ''user'',
      message_content = ''What is X?'', message_ordinal = 1, message_trace_url = None,
      message_sources = [], message_updated_at = None, message_finished_at = None\<rparr>"

definition stored_assistant_message :: db_chat_message where
  "stored_assistant_message =
     \<lparr>message_id = 2, message_chat_id = 1, message_role = ''assistant'',
      message_content = [], message_ordinal = 2, message_trace_url = Some [],
      message_sources = [], message_updated_at = None, message_finished_at = None\<rparr>"

definition database_with_chat :: database where
  "database_with_chat = demo_database\<lparr>db_chats := [anonymous_chat]\<rparr>"

definition database_after_persist :: database where
  "database_after_persist =
     database_with_chat\<lparr>db_messages := [stored_user_message, stored_assistant_message]\<rparr>"

section \<open>Lemmas on event streams and stages\<close>

lemma event_type_simps [simp]:
  "event_type (text_part s) = TEXT_PART"
  "event_type (error_part s) = ERROR_PART"
  "event_type (data_part c um am) = DATA_PART"
  "event_type (annotation_part st d ctx) = MESSAGE_ANNOTATIONS_PART"
  by (simp_all add: text_part_def error_part_def data_part_def annotation_part_def)

lemma is_annotation_simps [simp]:
  "is_annotation st (text_part s) = False"
  "is_annotation st (error_part s) = False"
  "is_annotation st (data_part c um am) = False"
  "is_annotation st (annotation_part st' d ctx) = (st' = st)"
  by (simp_all add: is_annotation_def text_part_def error_part_def data_part_def
      annotation_part_def)

lemma count_events_Nil [simp]: "count_events t [] = 0"
  by (simp add: count_events_def)

lemma count_events_Cons [simp]:
  "count_events t (e # es) = (if event_type e = t then 1 else 0) + count_events t es"
  by (simp add: count_events_def)

lemma count_events_append [simp]:
  "count_events t (xs @ ys) = count_events t xs + count_events t ys"
  by (simp add: count_events_def)

lemma count_events_text_parts [simp]:
  "count_events t (map text_part toks) = (if t = TEXT_PART then length toks else 0)"
  by (induction toks) auto

lemma count_annotations_Nil [simp]: "count_annotations st [] = 0"
  by (simp add: count_annotations_def)

lemma count_annotations_Cons [simp]:
  "count_annotations st (e # es) = (if is_annotation st e then 1 else 0) + count_annotations st es"
  by (simp add: count_annotations_def)

lemma count_annotations_append [simp]:
  "count_annotations st (xs @ ys) = count_annotations st xs + count_annotations st ys"
  by (simp add: count_annotations_def)

lemma count_annotations_text_parts [simp]:
  "count_annotations st (map text_part toks) = 0"
  by (induction toks) auto

lemma ends_with_completion_two [simp]:
  "ends_with_completion [f, d] = (event_type d = DATA_PART \<and> is_annotation FINISHED f)"
  by (simp add: ends_with_completion_def)

lemma ends_with_completion_append [simp]:
  "2 \<le> length ys \<Longrightarrow> ends_with_completion (xs @ ys) = ends_with_completion ys"
proof -
  assume "2 \<le> length ys"
  then obtain d f zs where "rev ys = d # f # zs"
    by (cases "rev ys"; cases "tl (rev ys)") (auto simp: Suc_le_eq dest: arg_cong [where f = length])
  then show ?thesis
    by (simp add: ends_with_completion_def)
qed

lemma ends_with_completion_Cons [simp]:
  "2 \<le> length ys \<Longrightarrow> ends_with_completion (x # ys) = ends_with_completion ys"
  using ends_with_completion_append [of ys "[x]"] by simp

lemma ends_with_error_last:
  "ends_with_error evs = (evs \<noteq> [] \<and> event_type (last evs) = ERROR_PART)"
  by (cases evs rule: rev_cases) (simp_all add: ends_with_error_def)

lemma finalize_raises_keeps_database:
  "finalize_assistant_message env db am docs txt = (db', Inl e) \<Longrightarrow> db' = db"
  by (auto simp: finalize_assistant_message_def Let_def split: option.splits)

lemma answer_turn_shape:
  assumes "answer_turn env svc db c q h tid url um am = (evs, db', out)"
  shows "(out = Returned \<and>
          (\<exists>docs toks.
             evs = opening_events c um am url
                   @ [annotation_part REFINE_QUESTION ''Refine the user question ...'' NoContext,
                      annotation_part SEARCH_RELATED_DOCUMENTS ''Search related documents ...''
                        NoContext,
                      annotation_part SOURCE_NODES [] (SourceDocuments docs)]
                   @ map text_part toks
                   @ [annotation_part FINISHED [] NoContext,
                      data_part c um
                        (am\<lparr>message_sources := docs, message_content := concat toks,
                            message_updated_at := Some (utc_now env),
                            message_finished_at := Some (utc_now env)\<rparr>)])) \<or>
         (\<exists>e. out = Raised e \<and> db' = db \<and>
            (evs = [] \<or>
             (\<exists>rest. evs = opening_events c um am url @ rest \<and>
                count_events ERROR_PART rest = 0 \<and> count_events DATA_PART rest = 0 \<and>
                count_annotations FINISHED rest = 0)))"
  using assms
  unfolding answer_turn_def Let_def opening_events_def
  by (auto simp: finalize_assistant_message_def Let_def split: sum.splits option.splits prod.splits)

lemma resolve_chat_not_found:
  assumes "resolve_chat env svc db q h0 cid = (db1, Inr None)"
  shows "db1 = db \<and> (\<exists>i. cid = Some i \<and> chat_repo_get env db i = Inr None)"
  using assms
  unfolding resolve_chat_def
  by (auto split: sum.splits option.splits prod.splits)

lemma chat_inner_shape:
  assumes "chat_inner env svc db chat_messages cid = (evs, db', out)"
  shows "(\<exists>e. out = Raised e \<and> evs = []) \<or>
         (out = Returned \<and> evs = [error_part ''Chat not found''] \<and> db' = db) \<or>
         (\<exists>q h0 db1 c h tid url db2 um am.
            parse_chat_messages chat_messages = Inr (q, h0) \<and>
            resolve_chat env svc db q h0 cid = (db1, Inr (Some (c, h))) \<and>
            start_trace env svc q h = Inr (tid, url) \<and>
            persist_user_turn env db1 c q url = (db2, Inr (um, am)) \<and>
            answer_turn env svc db2 c q h tid url um am = (evs, db', out))"
  using assms
  unfolding chat_inner_def
  by (auto split: sum.splits option.splits prod.splits dest: resolve_chat_not_found)

lemma opening_events_counts [simp]:
  "count_events ERROR_PART (opening_events c um am url) = 0"
  "count_events DATA_PART (opening_events c um am url) = 1"
  "count_annotations FINISHED (opening_events c um am url) = 0"
  by (simp_all add: opening_events_def)

lemma persist_user_turn_result:
  assumes "persist_user_turn env db c q url = (db2, Inr (um, am))"
  shows "db_messages db2 = db_messages db @ [um, am] \<and>
         db_chats db2 = db_chats db \<and>
         message_role um = MessageRole_USER \<and> message_content um = q \<and>
         message_role am = MessageRole_ASSISTANT \<and> message_content am = [] \<and>
         message_sources am = [] \<and> message_finished_at am = None \<and>
         message_trace_url am = Some url"
  using assms
  unfolding persist_user_turn_def chat_repo_create_message_def DBChatMessage_def Let_def
  by (auto split: option.splits)

text \<open>
  Claim C1. Whatever the collaborators do, the stream of \<^verbatim>\<open>ChatService.chat\<close>, consumed to
  its end, has exactly one of two endings. Either it ends with the FINISHED annotation
  followed by a data event, and then it holds one FINISHED annotation, two data events
  and no error event; or it ends with an error event, and then that is its only error
  event, it holds no FINISHED annotation and at most the opening data event.
\<close>

theorem chat_terminal_outcome:
  "(ends_with_completion (fst (chat env svc db chat_messages cid)) \<and>
    count_annotations FINISHED (fst (chat env svc db chat_messages cid)) = 1 \<and>
    count_events DATA_PART (fst (chat env svc db chat_messages cid)) = 2 \<and>
    count_events ERROR_PART (fst (chat env svc db chat_messages cid)) = 0) \<or>
   (ends_with_error (fst (chat env svc db chat_messages cid)) \<and>
    count_events ERROR_PART (fst (chat env svc db chat_messages cid)) = 1 \<and>
    count_annotations FINISHED (fst (chat env svc db chat_messages cid)) = 0 \<and>
    count_events DATA_PART (fst (chat env svc db chat_messages cid)) \<le> 1)"
proof -
  obtain evs db' out where inner: "chat_inner env svc db chat_messages cid = (evs, db', out)"
    by (cases "chat_inner env svc db chat_messages cid") auto
  from chat_inner_shape [OF inner] show ?thesis
  proof (elim disjE exE conjE)
    fix e assume "out = Raised e" "evs = []"
    with inner show ?thesis by (simp add: chat_def ends_with_error_last)
  next
    assume "out = Returned" "evs = [error_part ''Chat not found'']"
    with inner show ?thesis by (simp add: chat_def ends_with_error_last)
  next
    fix q h0 db1 c h tid url db2 um am
    assume "answer_turn env svc db2 c q h tid url um am = (evs, db', out)"
    from answer_turn_shape [OF this] show ?thesis
    proof (elim disjE exE conjE)
      fix docs toks
      assume "out = Returned"
        and "evs = opening_events c um am url
                   @ [annotation_part REFINE_QUESTION ''Refine the user question ...'' NoContext,
                      annotation_part SEARCH_RELATED_DOCUMENTS ''Search related documents ...''
                        NoContext,
                      annotation_part SOURCE_NODES [] (SourceDocuments docs)]
                   @ map text_part toks
                   @ [annotation_part FINISHED [] NoContext,
                      data_part c um
                        (am\<lparr>message_sources := docs, message_content := concat toks,
                            message_updated_at := Some (utc_now env),
                            message_finished_at := Some (utc_now env)\<rparr>)]"
      with inner show ?thesis
        by (simp add: chat_def)
    next
      fix e assume "out = Raised e" "evs = []"
      with inner show ?thesis by (simp add: chat_def ends_with_error_last)
    next
      fix e rest
      assume "out = Raised e" "evs = opening_events c um am url @ rest"
        "count_events ERROR_PART rest = 0" "count_events DATA_PART rest = 0"
        "count_annotations FINISHED rest = 0"
      with inner show ?thesis by (simp add: chat_def ends_with_error_last)
    qed
  qed
qed

lemma normal_turn_shape:
  assumes "count_events ERROR_PART (fst (chat env svc db chat_messages cid)) = 0"
  shows "\<exists>c um am url docs toks.
           fst (chat env svc db chat_messages cid) =
             opening_events c um am url
             @ [annotation_part REFINE_QUESTION ''Refine the user question ...'' NoContext,
                annotation_part SEARCH_RELATED_DOCUMENTS ''Search related documents ...''
                  NoContext,
                annotation_part SOURCE_NODES [] (SourceDocuments docs)]
             @ map text_part toks
             @ [annotation_part FINISHED [] NoContext,
                data_part c um
                  (am\<lparr>message_sources := docs, message_content := concat toks,
                      message_updated_at := Some (utc_now env),
                      message_finished_at := Some (utc_now env)\<rparr>)]"
proof -
  obtain evs db' out where inner: "chat_inner env svc db chat_messages cid = (evs, db', out)"
    by (cases "chat_inner env svc db chat_messages cid") auto
  have no_raise: "out = Returned"
    using assms inner by (cases out) (simp_all add: chat_def)
  then have evs: "fst (chat env svc db chat_messages cid) = evs"
    using inner by (simp add: chat_def)
  from chat_inner_shape [OF inner] no_raise assms evs
  obtain q h c tid url db2 um am where
    turn: "answer_turn env svc db2 c q h tid url um am = (evs, db', out)"
    by auto
  from answer_turn_shape [OF turn] no_raise obtain docs toks where
    "evs = opening_events c um am url
             @ [annotation_part REFINE_QUESTION ''Refine the user question ...'' NoContext,
                annotation_part SEARCH_RELATED_DOCUMENTS ''Search related documents ...''
                  NoContext,
                annotation_part SOURCE_NODES [] (SourceDocuments docs)]
             @ map text_part toks
             @ [annotation_part FINISHED [] NoContext,
                data_part c um
                  (am\<lparr>message_sources := docs, message_content := concat toks,
                      message_updated_at := Some (utc_now env),
                      message_finished_at := Some (utc_now env)\<rparr>)]"
    by auto
  with evs show ?thesis
    by blast
qed

text \<open>
  Claim C2. A turn that completes normally, that is, whose stream holds no error event,
  yields exactly: the empty text event, the data event, the TRACE annotation, the
  REFINE_QUESTION annotation, the SEARCH_RELATED_DOCUMENTS annotation, the SOURCE_NODES
  annotation with the source documents, one text event per fragment of the answer in
  order, the FINISHED annotation, and the data event with the finalised assistant
  message. So SOURCE_NODES precedes every text fragment of the answer and both data
  events frame FINISHED as stated.
\<close>

theorem normal_turn_event_order:
  assumes "count_events ERROR_PART (fst (chat env svc db chat_messages cid)) = 0"
  shows "\<exists>c um am url docs toks.
           fst (chat env svc db chat_messages cid) =
             [text_part [],
              data_part c um am,
              annotation_part TRACE ''Start knowledge graph searching ...'' (LangfuseUrl url),
              annotation_part REFINE_QUESTION ''Refine the user question ...'' NoContext,
              annotation_part SEARCH_RELATED_DOCUMENTS ''Search related documents ...''
                NoContext,
              annotation_part SOURCE_NODES [] (SourceDocuments docs)]
             @ map text_part toks
             @ [annotation_part FINISHED [] NoContext,
                data_part c um
                  (am\<lparr>message_sources := docs, message_content := concat toks,
                      message_updated_at := Some (utc_now env),
                      message_finished_at := Some (utc_now env)\<rparr>)]"
  using normal_turn_shape [OF assms] by (simp add: opening_events_def)

theorem normal_turn_event_order_witness:
  "count_events ERROR_PART
     (fst (chat demo_collaborators demo_service demo_database demo_messages None)) = 0 \<and>
   (\<exists>c um am url docs toks.
      fst (chat demo_collaborators demo_service demo_database demo_messages None) =
        [text_part [],
         data_part c um am,
         annotation_part TRACE ''Start knowledge graph searching ...'' (LangfuseUrl url),
         annotation_part REFINE_QUESTION ''Refine the user question ...'' NoContext,
         annotation_part SEARCH_RELATED_DOCUMENTS ''Search related documents ...'' NoContext,
         annotation_part SOURCE_NODES [] (SourceDocuments docs)]
        @ map text_part toks
        @ [annotation_part FINISHED [] NoContext,
           data_part c um
             (am\<lparr>message_sources := docs, message_content := concat toks,
                 message_updated_at := Some (utc_now demo_collaborators),
                 message_finished_at := Some (utc_now demo_collaborators)\<rparr>)])"
proof -
  have no_error:
    "count_events ERROR_PART
       (fst (chat demo_collaborators demo_service demo_database demo_messages None)) = 0"
    by code_simp
  show ?thesis
    using no_error normal_turn_event_order [OF no_error] by simp
qed

text \<open>
  Claim C10. On the empty message list the generator raises \<^verbatim>\<open>IndexError\<close> while parsing,
  before it has yielded an event or touched the tables; the wrapper turns this into a
  stream of exactly one error event with the generic message, and the tables are the
  ones the turn started with: no chat and no message has been created.
\<close>

theorem chat_empty_message_list:
  "chat_inner env svc db [] cid = ([], db, Raised IndexError) \<and>
   chat env svc db [] cid = ([error_part generic_error_message], db)"
  by (simp add: chat_def chat_inner_def parse_chat_messages_def)

text \<open>
  Claim C5, as stated, fails on the empty message list: the question is parsed before
  the chat is looked up, so the stream is the generic error event, not "Chat not found".
\<close>

theorem chat_not_found_counterexample:
  "42 \<notin> chat_id ` set (db_chats demo_database) \<and>
   fst (chat demo_collaborators demo_service demo_database [] (Some 42)) =
     [error_part generic_error_message] \<and>
   fst (chat demo_collaborators demo_service demo_database [] (Some 42)) \<noteq>
     [error_part ''Chat not found'']"
  by code_simp

text \<open>
  Claim C5, amended. For a non-empty message list and a supplied identifier that no
  stored chat has, when the lookup itself does not raise, the stream is exactly the one
  event \<open>ERROR_PART "Chat not found"\<close> and the tables are unchanged; the result does not
  depend on any other collaborator, so nothing is retrieved or generated.
\<close>

theorem chat_not_found:
  assumes "chat_messages \<noteq> []"
    and "session_error env GetChat = None"
    and "i \<notin> chat_id ` set (db_chats db)"
  shows "chat env svc db chat_messages (Some i) = ([error_part ''Chat not found''], db)"
proof -
  have "find (\<lambda>c. chat_id c = i) (db_chats db) = None"
    using assms(3) by (auto simp: find_None_iff)
  then have "resolve_chat env svc db q h (Some i) = (db, Inr None)" for q h
    using assms(2) by (simp add: resolve_chat_def chat_repo_get_def)
  then show ?thesis
    using assms(1)
    by (cases chat_messages) (simp_all add: chat_def chat_inner_def parse_chat_messages_def)
qed

theorem chat_not_found_witness:
  "demo_messages \<noteq> [] \<and>
   session_error demo_collaborators GetChat = None \<and>
   42 \<notin> chat_id ` set (db_chats demo_database) \<and>
   chat demo_collaborators demo_service demo_database demo_messages (Some 42) =
     ([error_part ''Chat not found''], demo_database)"
proof -
  have h1: "demo_messages \<noteq> []"
    by (simp add: demo_messages_def)
  have h2: "session_error demo_collaborators GetChat = None"
    by (simp add: demo_collaborators_def)
  have h3: "42 \<notin> chat_id ` set (db_chats demo_database)"
    by (simp add: demo_database_def)
  show ?thesis
    using h1 h2 h3 chat_not_found [OF h1 h2 h3, of demo_service] by simp
qed

text \<open>
  Claim C9. A chat without an owning user is visible to every viewer, the absent viewer
  included; a chat owned by the user with identifier \<open>owner\<close> is visible exactly to a
  present viewer who has that identifier or is a superuser. The predicate is a function
  of its two arguments and changes nothing.
\<close>

theorem user_can_view_chat_spec:
  "(chat_user_id c = None \<longrightarrow> user_can_view_chat c viewer) \<and>
   (chat_user_id c = Some owner \<longrightarrow>
      user_can_view_chat c viewer =
        (\<exists>u. viewer = Some u \<and> (user_id u = owner \<or> is_superuser u)))"
  by (cases viewer) (auto simp: user_can_view_chat_def)

theorem user_can_view_chat_spec_witness:
  "chat_user_id anonymous_chat = None \<and> user_can_view_chat anonymous_chat None \<and>
   chat_user_id owned_chat = Some 7 \<and>
   user_can_view_chat owned_chat (Some alice) \<and>
   user_can_view_chat owned_chat (Some root_user) \<and>
   \<not> user_can_view_chat owned_chat (Some bob) \<and>
   \<not> user_can_view_chat owned_chat None"
  using user_can_view_chat_spec [of anonymous_chat None 7]
    user_can_view_chat_spec [of owned_chat "Some alice" 7]
    user_can_view_chat_spec [of owned_chat "Some root_user" 7]
    user_can_view_chat_spec [of owned_chat "Some bob" 7]
    user_can_view_chat_spec [of owned_chat None 7]
  by (simp add: anonymous_chat_def owned_chat_def alice_def bob_def root_user_def)

text \<open>
  Claim C4. With a reranker configured the service asks for 100 similar nodes and its
  postprocessors are the metadata filter followed by the reranker; without one it asks
  for 10 and the metadata filter is the only postprocessor. The query engine of a turn
  is built with exactly these two settings.
\<close>

theorem reranker_decides_query_engine:
  "(cfg_reranker config = Some r \<longrightarrow>
      svc_similarity_top_k (ChatService_init config settings usr browser engine) = 100 \<and>
      svc_node_postprocessors (ChatService_init config settings usr browser engine) =
        [MetadataFilterPostprocessor (cfg_metadata_filter config), RerankerPostprocessor r] \<and>
      qe_similarity_top_k
        (as_query_engine (ChatService_init config settings usr browser engine) ms t1 t2) = 100 \<and>
      qe_node_postprocessors
        (as_query_engine (ChatService_init config settings usr browser engine) ms t1 t2) =
        [MetadataFilterPostprocessor (cfg_metadata_filter config), RerankerPostprocessor r]) \<and>
   (cfg_reranker config = None \<longrightarrow>
      svc_similarity_top_k (ChatService_init config settings usr browser engine) = 10 \<and>
      svc_node_postprocessors (ChatService_init config settings usr browser engine) =
        [MetadataFilterPostprocessor (cfg_metadata_filter config)] \<and>
      qe_similarity_top_k
        (as_query_engine (ChatService_init config settings usr browser engine) ms t1 t2) = 10 \<and>
      qe_node_postprocessors
        (as_query_engine (ChatService_init config settings usr browser engine) ms t1 t2) =
        [MetadataFilterPostprocessor (cfg_metadata_filter config)])"
  by (simp add: ChatService_init_def as_query_engine_def Let_def)

theorem reranker_decides_query_engine_witness:
  "cfg_reranker reranking_config = Some (Reranker ''jina'') \<and>
   svc_similarity_top_k
     (ChatService_init reranking_config demo_settings None ''browser-1'' ''default'') = 100 \<and>
   svc_node_postprocessors
     (ChatService_init reranking_config demo_settings None ''browser-1'' ''default'') =
     [MetadataFilterPostprocessor (MetadataFilter ''all''),
      RerankerPostprocessor (Reranker ''jina'')] \<and>
   qe_similarity_top_k
     (as_query_engine
        (ChatService_init reranking_config demo_settings None ''browser-1'' ''default'')
        demo_models ''qa'' ''refine'') = 100 \<and>
   cfg_reranker demo_config = None \<and>
   svc_similarity_top_k demo_service = 10 \<and>
   svc_node_postprocessors demo_service =
     [MetadataFilterPostprocessor (MetadataFilter ''all'')] \<and>
   qe_node_postprocessors (as_query_engine demo_service demo_models ''qa'' ''refine'') =
     [MetadataFilterPostprocessor (MetadataFilter ''all'')]"
  using reranker_decides_query_engine
      [of reranking_config "Reranker ''jina''" demo_settings None "''browser-1''" "''default''"
        demo_models "''qa''" "''refine''"]
    reranker_decides_query_engine
      [of demo_config "Reranker ''jina''" demo_settings None "''browser-1''" "''default''"
        demo_models "''qa''" "''refine''"]
  by (simp add: reranking_config_def demo_config_def demo_service_def)

text \<open>
  Claim C3. When the user message and the empty assistant placeholder have been stored
  and the generator then raises (whichever collaborator raises: a model factory, the
  graph store, the template engine, the fast language model during refinement, the query
  engine, the token generator, the final commit), the stream ends with exactly one error
  event, which carries the generic message; it holds no FINISHED annotation and no data
  event beyond the opening one; and the tables after the turn are the tables right after
  the two inserts: the user message and the placeholder are in them, the placeholder
  with empty content, no sources and no finishing time.
\<close>

theorem error_after_persist:
  assumes "parse_chat_messages chat_messages = Inr (q, h0)"
    and "resolve_chat env svc db q h0 cid = (db1, Inr (Some (c, h)))"
    and "start_trace env svc q h = Inr (tid, url)"
    and "persist_user_turn env db1 c q url = (db2, Inr (um, am))"
    and "snd (snd (chat_inner env svc db chat_messages cid)) = Raised e"
  shows "(\<exists>evs. fst (chat env svc db chat_messages cid) =
                   evs @ [error_part generic_error_message] \<and>
                count_events ERROR_PART evs = 0 \<and>
                count_annotations FINISHED evs = 0 \<and>
                count_events DATA_PART evs \<le> 1) \<and>
         snd (chat env svc db chat_messages cid) = db2 \<and>
         db_messages db2 = db_messages db1 @ [um, am] \<and>
         message_role um = MessageRole_USER \<and> message_content um = q \<and>
         message_role am = MessageRole_ASSISTANT \<and> message_content am = [] \<and>
         message_sources am = [] \<and> message_finished_at am = None"
proof -
  obtain evs db' out where
    turn: "answer_turn env svc db2 c q h tid url um am = (evs, db', out)"
    by (cases "answer_turn env svc db2 c q h tid url um am") auto
  have inner: "chat_inner env svc db chat_messages cid = (evs, db', out)"
    using assms(1-4) turn by (simp add: chat_inner_def)
  with assms(5) have out: "out = Raised e"
    by simp
  from answer_turn_shape [OF turn] out have db': "db' = db2"
    and evs: "evs = [] \<or>
       (\<exists>rest. evs = opening_events c um am url @ rest \<and>
          count_events ERROR_PART rest = 0 \<and> count_events DATA_PART rest = 0 \<and>
          count_annotations FINISHED rest = 0)"
    by auto
  have stream: "chat env svc db chat_messages cid =
      (evs @ [error_part generic_error_message], db2)"
    using inner out db' by (simp add: chat_def)
  have counts: "count_events ERROR_PART evs = 0 \<and> count_annotations FINISHED evs = 0 \<and>
      count_events DATA_PART evs \<le> 1"
    using evs by auto
  from stream counts persist_user_turn_result [OF assms(4)] show ?thesis
    by simp
qed

theorem error_after_persist_witness:
  "parse_chat_messages demo_messages = Inr (''What is X?'', []) \<and>
   resolve_chat failing_llm_collaborators demo_service demo_database ''What is X?'' [] None =
     (database_with_chat, Inr (Some (anonymous_chat, []))) \<and>
   start_trace failing_llm_collaborators demo_service ''What is X?'' [] = Inr ([], []) \<and>
   persist_user_turn failing_llm_collaborators database_with_chat anonymous_chat
       ''What is X?'' [] =
     (database_after_persist, Inr (stored_user_message, stored_assistant_message)) \<and>
   snd (snd (chat_inner failing_llm_collaborators demo_service demo_database demo_messages
     None)) = Raised (UpstreamCallError ''timeout'') \<and>
   (\<exists>evs. fst (chat failing_llm_collaborators demo_service demo_database demo_messages None) =
            evs @ [error_part generic_error_message] \<and>
          count_events ERROR_PART evs = 0 \<and>
          count_annotations FINISHED evs = 0 \<and>
          count_events DATA_PART evs \<le> 1) \<and>
   snd (chat failing_llm_collaborators demo_service demo_database demo_messages None) =
     database_after_persist \<and>
   db_messages database_after_persist = [stored_user_message, stored_assistant_message] \<and>
   message_content stored_assistant_message = [] \<and>
   message_finished_at stored_assistant_message = None"
proof -
  have h1: "parse_chat_messages demo_messages = Inr (''What is X?'', [])"
    by code_simp
  have h2: "resolve_chat failing_llm_collaborators demo_service demo_database ''What is X?''
      [] None = (database_with_chat, Inr (Some (anonymous_chat, [])))"
    by code_simp
  have h3: "start_trace failing_llm_collaborators demo_service ''What is X?'' [] =
      Inr ([], [])"
    by code_simp
  have h4: "persist_user_turn failing_llm_collaborators database_with_chat anonymous_chat
      ''What is X?'' [] =
      (database_after_persist, Inr (stored_user_message, stored_assistant_message))"
    by code_simp
  have h5: "snd (snd (chat_inner failing_llm_collaborators demo_service demo_database
      demo_messages None)) = Raised (UpstreamCallError ''timeout'')"
    by code_simp
  have facts: "db_messages database_with_chat = []"
    by code_simp
  show ?thesis
    using h1 h2 h3 h4 h5 facts error_after_persist [OF h1 h2 h3 h4 h5]
    by simp
qed

lemma get_prompt_returns:
  assumes "\<forall>t kw. returns (jinja2_render env t kw)"
  shows "\<exists>s. get_prompt_by_jinja2_template (jinja2_render env) t kw = Inr s"
proof -
  from assms have "returns (jinja2_render env t kw)"
    by blast
  then show ?thesis
    by (cases "jinja2_render env t kw")
      (simp_all add: returns_def get_prompt_by_jinja2_template_def)
qed

lemma create_history_messages_returns:
  assumes "\<forall>op. session_error env op = None"
  shows "snd (create_history_messages env db c i ms) = None"
  using assms
  by (induction ms arbitrary: db i) (simp_all add: chat_repo_create_message_def Let_def)

lemma resolve_chat_returns:
  assumes "\<forall>op. session_error env op = None"
    and "\<forall>i. cid = Some i \<longrightarrow> i \<in> chat_id ` set (db_chats db)"
  shows "\<exists>db1 c h. resolve_chat env svc db q h0 cid = (db1, Inr (Some (c, h)))"
proof (cases cid)
  case None
  obtain db' c where created:
    "chat_repo_create env db
       \<lparr>chat_id = 0, chat_title = take 100 q, chat_engine_id = svc_db_chat_engine_id svc,
        chat_engine_name = svc_engine_name svc,
        chat_engine_options = cfg_screenshot (svc_chat_engine_config svc),
        chat_deleted_at = None,
        chat_user_id = (case svc_user svc of Some u \<Rightarrow> Some (user_id u) | None \<Rightarrow> None),
        chat_browser_id = svc_browser_id svc\<rparr> = (db', Inr c)"
    using assms(1) by (simp add: chat_repo_create_def Let_def)
  obtain db'' where "create_history_messages env db' c 0 h0 = (db'', None)"
    using create_history_messages_returns [OF assms(1), of db' c 0 h0]
    by (cases "create_history_messages env db' c 0 h0") auto
  with None created show ?thesis
    by (simp add: resolve_chat_def)
next
  case (Some i)
  with assms(2) have "\<exists>x \<in> set (db_chats db). chat_id x = i"
    by auto
  then obtain c where "find (\<lambda>c. chat_id c = i) (db_chats db) = Some c"
    by (cases "find (\<lambda>c. chat_id c = i) (db_chats db)") (auto simp: find_None_iff)
  with Some assms(1) show ?thesis
    by (simp add: resolve_chat_def chat_repo_get_def chat_repo_get_messages_def)
qed

lemma start_trace_returns:
  assumes "\<forall>u q h. returns (langfuse_trace env u q h)"
  shows "\<exists>tid url. start_trace env svc q h = Inr (tid, url)"
proof (cases "svc_enable_langfuse svc")
  case True
  from assms have "returns (langfuse_trace env
      (case svc_user svc of Some u \<Rightarrow> user_email u | None \<Rightarrow> ''anonymous-'' @ svc_browser_id svc)
      q h)"
    by blast
  with True show ?thesis
    by (cases "langfuse_trace env
      (case svc_user svc of Some u \<Rightarrow> user_email u | None \<Rightarrow> ''anonymous-'' @ svc_browser_id svc)
      q h") (auto simp: returns_def start_trace_def)
next
  case False
  then show ?thesis
    by (simp add: start_trace_def)
qed

lemma persist_user_turn_returns:
  assumes "\<forall>op. session_error env op = None"
  shows "\<exists>db2 um am. persist_user_turn env db c q url = (db2, Inr (um, am))"
  using assms
  by (simp add: persist_user_turn_def chat_repo_create_message_def Let_def)

lemma load_models_returns:
  assumes "returns (get_default_embedding_model env)" "returns (get_llama_llm env)"
    "returns (get_fast_llama_llm env)" "returns (get_fast_dspy_lm env)"
  shows "\<exists>ms. load_models env = Inr ms"
  using assms
  by (auto simp: load_models_def returns_def split: sum.splits)

lemma retrieve_knowledge_disabled:
  assumes "\<not> kg_enabled (cfg_knowledge_graph (svc_chat_engine_config svc))"
  shows "retrieve_knowledge env svc ms q h = Inr ([], [], [], [])"
  using assms by (simp add: retrieve_knowledge_def)

lemma refine_question_returns:
  assumes "\<forall>t kw. returns (jinja2_render env t kw)" "\<forall>l p. returns (llm_predict env l p)"
  shows "\<exists>rq. refine_question env svc ms gk q h = Inr rq"
proof -
  obtain p where "get_prompt_by_jinja2_template (jinja2_render env)
      (condense_question_prompt (cfg_llm (svc_chat_engine_config svc)))
      [(''graph_knowledges'', JStr gk), (''chat_history'', history_value h),
       (''question'', JStr q)] = Inr p"
    using get_prompt_returns [OF assms(1)] by blast
  moreover from assms(2) have "returns (llm_predict env (m_fast_llm ms) p)"
    by blast
  ultimately show ?thesis
    by (cases "llm_predict env (m_fast_llm ms) p") (simp_all add: refine_question_def returns_def)
qed

lemma search_related_documents_returns:
  assumes "\<forall>t kw. returns (jinja2_render env t kw)"
    and "\<forall>qe q. case query_engine_query env qe q of
           Inl _ \<Rightarrow> False | Inr r \<Rightarrow> response_gen_error r = None"
    and "session_error env SelectSourceDocuments = None"
  shows "\<exists>r docs. search_related_documents env svc db ms gk rq = Inr (r, docs) \<and>
           response_gen_error r = None"
proof -
  obtain t1 where t1: "get_prompt_by_jinja2_template (jinja2_render env)
      (text_qa_prompt (cfg_llm (svc_chat_engine_config svc)))
      [(''graph_knowledges'', JStr gk)] = Inr t1"
    using get_prompt_returns [OF assms(1)] by blast
  obtain t2 where t2: "get_prompt_by_jinja2_template (jinja2_render env)
      (refine_prompt (cfg_llm (svc_chat_engine_config svc)))
      [(''graph_knowledges'', JStr gk)] = Inr t2"
    using get_prompt_returns [OF assms(1)] by blast
  from assms(2) have "case query_engine_query env (as_query_engine svc ms t1 t2) rq of
      Inl _ \<Rightarrow> False | Inr r \<Rightarrow> response_gen_error r = None"
    by blast
  then obtain r where "query_engine_query env (as_query_engine svc ms t1 t2) rq = Inr r"
    and "response_gen_error r = None"
    by (cases "query_engine_query env (as_query_engine svc ms t1 t2) rq") auto
  with t1 t2 assms(3) show ?thesis
    by (simp add: search_related_documents_def get_source_documents_def)
qed

lemma answer_turn_returns:
  assumes "collaborators_return env"
    and "\<not> kg_enabled (cfg_knowledge_graph (svc_chat_engine_config svc))"
  shows "snd (snd (answer_turn env svc db c q h tid url um am)) = Returned"
proof -
  from assms(1) have session: "\<forall>op. session_error env op = None"
    and observe: "\<forall>t. langfuse_trace_by_id env t = None"
    and render: "\<forall>t kw. returns (jinja2_render env t kw)"
    and predict: "\<forall>l p. returns (llm_predict env l p)"
    and query: "\<forall>qe q. case query_engine_query env qe q of
           Inl _ \<Rightarrow> False | Inr r \<Rightarrow> response_gen_error r = None"
    by (simp_all add: collaborators_return_def)
  obtain ms where ms: "load_models env = Inr ms"
    using load_models_returns [of env] assms(1) by (auto simp: collaborators_return_def)
  have cb: "get_llamaindex_callback_manager env svc tid = None"
    using observe by (simp add: get_llamaindex_callback_manager_def)
  have kg: "retrieve_knowledge env svc ms q h = Inr ([], [], [], [])"
    by (rule retrieve_knowledge_disabled [OF assms(2)])
  obtain rq where rq: "refine_question env svc ms [] q h = Inr rq"
    using refine_question_returns [OF render predict] by blast
  obtain r docs where search: "search_related_documents env svc db ms [] rq = Inr (r, docs)"
    and gen: "response_gen_error r = None"
    using search_related_documents_returns [OF render query] session by blast
  show ?thesis
    using ms cb kg rq search gen session
    by (simp add: answer_turn_def finalize_assistant_message_def Let_def)
qed

lemma chat_returns_without_knowledge_graph:
  assumes "collaborators_return env"
    and "\<not> kg_enabled (cfg_knowledge_graph (svc_chat_engine_config svc))"
    and "chat_messages \<noteq> []"
    and "\<forall>i. cid = Some i \<longrightarrow> i \<in> chat_id ` set (db_chats db)"
  shows "count_events ERROR_PART (fst (chat env svc db chat_messages cid)) = 0"
proof -
  from assms(1) have session: "\<forall>op. session_error env op = None"
    and trace: "\<forall>u q h. returns (langfuse_trace env u q h)"
    by (simp_all add: collaborators_return_def)
  obtain q h0 where parse: "parse_chat_messages chat_messages = Inr (q, h0)"
    using assms(3) by (cases chat_messages) (simp_all add: parse_chat_messages_def)
  obtain db1 c h where resolve: "resolve_chat env svc db q h0 cid = (db1, Inr (Some (c, h)))"
    using resolve_chat_returns [OF session assms(4)] by blast
  obtain tid url where tr: "start_trace env svc q h = Inr (tid, url)"
    using start_trace_returns [OF trace] by blast
  obtain db2 um am where persist: "persist_user_turn env db1 c q url = (db2, Inr (um, am))"
    using persist_user_turn_returns [OF session] by blast
  obtain evs db' out where
    turn: "answer_turn env svc db2 c q h tid url um am = (evs, db', out)"
    by (cases "answer_turn env svc db2 c q h tid url um am") auto
  have out: "out = Returned"
    using answer_turn_returns [OF assms(1,2), of db2 c q h tid url um am] turn by simp
  have "chat env svc db chat_messages cid = (evs, db')"
    using parse resolve tr persist turn out by (simp add: chat_def chat_inner_def)
  moreover from answer_turn_shape [OF turn] out have "count_events ERROR_PART evs = 0"
    by auto
  ultimately show ?thesis
    by simp
qed

text \<open>
  Claim C7. With the knowledge graph disabled the retrieval step returns empty
  entities, relationships and chunks and the empty context string, whatever the
  collaborators do: it makes no call that could raise. And the turn completes normally
  whenever the remaining collaborators return (a non-empty message list, and an
  identifier, if supplied, of a stored chat): the stream runs through REFINE_QUESTION,
  SEARCH_RELATED_DOCUMENTS, SOURCE_NODES and the answer to FINISHED and the final data
  event, with no error event.
\<close>

theorem knowledge_graph_disabled:
  assumes "\<not> kg_enabled (cfg_knowledge_graph (svc_chat_engine_config svc))"
  shows "retrieve_knowledge env svc ms q h = Inr ([], [], [], []) \<and>
         (collaborators_return env \<and> chat_messages \<noteq> [] \<and>
          (\<forall>i. cid = Some i \<longrightarrow> i \<in> chat_id ` set (db_chats db)) \<longrightarrow>
          count_events ERROR_PART (fst (chat env svc db chat_messages cid)) = 0 \<and>
          (\<exists>c um am url docs toks.
             fst (chat env svc db chat_messages cid) =
               [text_part [],
                data_part c um am,
                annotation_part TRACE ''Start knowledge graph searching ...'' (LangfuseUrl url),
                annotation_part REFINE_QUESTION ''Refine the user question ...'' NoContext,
                annotation_part SEARCH_RELATED_DOCUMENTS ''Search related documents ...''
                  NoContext,
                annotation_part SOURCE_NODES [] (SourceDocuments docs)]
               @ map text_part toks
               @ [annotation_part FINISHED [] NoContext,
                  data_part c um
                    (am\<lparr>message_sources := docs, message_content := concat toks,
                        message_updated_at := Some (utc_now env),
                        message_finished_at := Some (utc_now env)\<rparr>)]))"
proof (intro conjI impI)
  show "retrieve_knowledge env svc ms q h = Inr ([], [], [], [])"
    by (rule retrieve_knowledge_disabled [OF assms])
next
  assume rest: "collaborators_return env \<and> chat_messages \<noteq> [] \<and>
    (\<forall>i. cid = Some i \<longrightarrow> i \<in> chat_id ` set (db_chats db))"
  then show no_error: "count_events ERROR_PART (fst (chat env svc db chat_messages cid)) = 0"
    using chat_returns_without_knowledge_graph [OF _ assms] by blast
  from normal_turn_shape [OF no_error]
  show "\<exists>c um am url docs toks.
             fst (chat env svc db chat_messages cid) =
               [text_part [],
                data_part c um am,
                annotation_part TRACE ''Start knowledge graph searching ...'' (LangfuseUrl url),
                annotation_part REFINE_QUESTION ''Refine the user question ...'' NoContext,
                annotation_part SEARCH_RELATED_DOCUMENTS ''Search related documents ...''
                  NoContext,
                annotation_part SOURCE_NODES [] (SourceDocuments docs)]
               @ map text_part toks
               @ [annotation_part FINISHED [] NoContext,
                  data_part c um
                    (am\<lparr>message_sources := docs, message_content := concat toks,
                        message_updated_at := Some (utc_now env),
                        message_finished_at := Some (utc_now env)\<rparr>)]"
    by (simp add: opening_events_def)
qed

theorem knowledge_graph_disabled_witness:
  "\<not> kg_enabled (cfg_knowledge_graph (svc_chat_engine_config demo_service)) \<and>
   collaborators_return demo_collaborators \<and> demo_messages \<noteq> [] \<and>
   retrieve_knowledge demo_collaborators demo_service demo_models ''What is X?'' [] =
     Inr ([], [], [], []) \<and>
   count_events ERROR_PART
     (fst (chat demo_collaborators demo_service demo_database demo_messages None)) = 0 \<and>
   ends_with_completion
     (fst (chat demo_collaborators demo_service demo_database demo_messages None))"
proof -
  have h1: "\<not> kg_enabled (cfg_knowledge_graph (svc_chat_engine_config demo_service))"
    by (simp add: demo_service_def ChatService_init_def demo_config_def Let_def)
  have h2: "collaborators_return demo_collaborators"
    by (simp add: collaborators_return_def demo_collaborators_def returns_def
        render_variable_def demo_response_def split: option.splits jvalue.splits)
  have h3: "demo_messages \<noteq> []"
    by (simp add: demo_messages_def)
  have h4: "\<forall>i. (None :: uuid option) = Some i \<longrightarrow> i \<in> chat_id ` set (db_chats demo_database)"
    by simp
  from knowledge_graph_disabled [OF h1, of demo_collaborators demo_models "''What is X?''" "[]"
      demo_messages None demo_database] h2 h3 h4
  have "retrieve_knowledge demo_collaborators demo_service demo_models ''What is X?'' [] =
          Inr ([], [], [], [])"
    and "count_events ERROR_PART
          (fst (chat demo_collaborators demo_service demo_database demo_messages None)) = 0"
    and "\<exists>c um am url docs toks.
          fst (chat demo_collaborators demo_service demo_database demo_messages None) =
               [text_part [],
                data_part c um am,
                annotation_part TRACE ''Start knowledge graph searching ...'' (LangfuseUrl url),
                annotation_part REFINE_QUESTION ''Refine the user question ...'' NoContext,
                annotation_part SEARCH_RELATED_DOCUMENTS ''Search related documents ...''
                  NoContext,
                annotation_part SOURCE_NODES [] (SourceDocuments docs)]
               @ map text_part toks
               @ [annotation_part FINISHED [] NoContext,
                  data_part c um
                    (am\<lparr>message_sources := docs, message_content := concat toks,
                        message_updated_at := Some (utc_now demo_collaborators),
                        message_finished_at := Some (utc_now demo_collaborators)\<rparr>)]"
    by blast+
  moreover from this(3) have "ends_with_completion
     (fst (chat demo_collaborators demo_service demo_database demo_messages None))"
    by auto
  ultimately show ?thesis
    using h1 h2 h3 by blast
qed

lemma get_chat_message_subgraph_other_role:
  "message_role m \<noteq> MessageRole_USER \<Longrightarrow> get_chat_message_subgraph env db m = Inr ([], [])"
  by (simp add: get_chat_message_subgraph_def)

lemma get_chat_message_subgraph_call:
  assumes "message_role m = MessageRole_USER"
    and "get_chat_message_subgraph env db m = Inr (entities, relations)"
  shows "\<exists>c config dl em chunks.
           find (\<lambda>c. chat_id c = message_chat_id m) (db_chats db) = Some c \<and>
           load_from_db env (chat_engine_name c) = Inr config \<and>
           store_retrieve_with_weight env \<lparr>gs_dspy_lm = dl, gs_embed_model = em\<rparr>
             \<lparr>rw_query = message_content m,
              rw_embedding = [],
              rw_depth = kg_depth (cfg_knowledge_graph config),
              rw_include_meta = kg_include_meta (cfg_knowledge_graph config),
              rw_with_degree = kg_with_degree (cfg_knowledge_graph config),
              rw_relationship_meta_filters = None,
              rw_with_chunks = False\<rparr> = Inr (entities, relations, chunks)"
  using assms
  by (auto simp: get_chat_message_subgraph_def Let_def split: option.splits sum.splits)

text \<open>
  Claim C8 at a user message of a chat whose engine configuration carries the
  relationship filter \<open>topic = storage\<close>: the lookup calls the graph store without the
  filter and returns both relationships, while the retrieval with the configured filter,
  as the live turn passes it, returns only the first. Depth, metadata inclusion and
  degree awareness are read from the configuration; the relationship filter is not.
\<close>

theorem get_chat_message_subgraph_drops_meta_filters:
  "message_role stored_user_message = MessageRole_USER \<and>
   kg_relationship_meta_filters (cfg_knowledge_graph demo_config) = [(''topic'', ''storage'')] \<and>
   get_chat_message_subgraph demo_collaborators database_after_persist stored_user_message =
     Inr ([''TiDB''], [''TiDB stores rows'', ''TiDB has a logo'']) \<and>
   store_retrieve_with_weight demo_collaborators
     \<lparr>gs_dspy_lm = ''dspy'', gs_embed_model = ''embed''\<rparr>
     \<lparr>rw_query = message_content stored_user_message,
      rw_embedding = [],
      rw_depth = kg_depth (cfg_knowledge_graph demo_config),
      rw_include_meta = kg_include_meta (cfg_knowledge_graph demo_config),
      rw_with_degree = kg_with_degree (cfg_knowledge_graph demo_config),
      rw_relationship_meta_filters =
        Some (kg_relationship_meta_filters (cfg_knowledge_graph demo_config)),
      rw_with_chunks = False\<rparr> =
     Inr ([''TiDB''], [''TiDB stores rows''], [])"
  by code_simp

section \<open>Prompt rendering: braces and placeholders\<close>

lemma flat_simps [simp]:
  "flat [] = []"
  "flat (t # ts) = emit t @ flat ts"
  "flat (ts @ us) = flat ts @ flat us"
  by (simp_all add: flat_def)

lemma str_replace_char:
  "str_replace [a] new s = concat (map (\<lambda>c. if c = a then new else [c]) s)"
  by (induction s) auto

lemma escape_braces:
  "str_replace ''}'' ''}}'' (str_replace ''{'' ''{{'' r) = flat (map Ch r)"
  by (induction r) (simp_all add: str_replace_char)

lemma flat_chars: "brace_free m \<Longrightarrow> flat (map Ch m) = m"
  by (induction m) (auto simp: brace_free_def)

lemma str_replace_skip:
  assumes "marker \<noteq> []" and "\<forall>c \<in> set u. c \<noteq> hd marker"
  shows "str_replace marker new (u @ s) = u @ str_replace marker new s"
  using assms
proof (induction u)
  case Nil
  then show ?case by simp
next
  case (Cons c u)
  then have "\<not> prefix marker (c # u @ s)"
    by (cases marker) auto
  with Cons show ?case by simp
qed

lemma str_replace_match:
  assumes "marker \<noteq> []"
  shows "str_replace marker new (marker @ s) = new @ str_replace marker new s"
  using assms by (cases marker) simp_all

lemma prefix_flat:
  assumes "brace_free marker"
  shows "prefix marker (flat ts) = prefix (map Ch marker) ts"
  using assms
proof (induction marker arbitrary: ts)
  case Nil
  then show ?case by simp
next
  case (Cons m ms)
  then have m: "m \<noteq> CHR ''{''" "m \<noteq> CHR ''}''" and ms: "brace_free ms"
    by (auto simp: brace_free_def)
  show ?case
  proof (cases ts)
    case Nil
    then show ?thesis by simp
  next
    case (Cons t ts')
    show ?thesis
    proof (cases t)
      case (Ch c)
      with Cons m Cons.IH [OF ms, of ts'] show ?thesis
        by auto
    next
      case (Placeholder n)
      with Cons m show ?thesis
        by auto
    qed
  qed
qed


lemma drop_flat:
  assumes "brace_free marker" and "prefix (map Ch marker) ts"
  shows "flat ts = marker @ flat (drop (length marker) ts)"
proof -
  from assms(2) obtain rest where "ts = map Ch marker @ rest"
    by (auto simp: prefix_def)
  then show ?thesis
    using flat_chars [OF assms(1)] by simp
qed

lemma str_replace_restore:
  "marker \<noteq> [] \<Longrightarrow> brace_free marker \<Longrightarrow> marker_free marker ts \<Longrightarrow>
   str_replace marker (CHR ''{'' # name @ ''}'') (flat ts) = flat (restore marker name ts)"
proof (induction marker name ts rule: restore.induct)
  case (1 marker name)
  then show ?case
    by simp
next
  case (2 marker name t ts)
  note assms = "2.prems"(1,2)
  have hd_marker: "hd marker \<noteq> CHR ''{''" "hd marker \<noteq> CHR ''}''"
    using assms by (cases marker; auto simp: brace_free_def)+
  show ?case
  proof (cases "prefix (map Ch marker) (t # ts)")
    case True
    have "set (drop (length marker) (t # ts)) \<subseteq> set (t # ts)"
      by (rule set_drop_subset)
    then have free: "marker_free marker (drop (length marker) (t # ts))"
      using "2.prems"(3) unfolding marker_free_def by blast
    have "flat (t # ts) = marker @ flat (drop (length marker) (t # ts))"
      by (rule drop_flat [OF assms(2) True])
    then have "str_replace marker (CHR ''{'' # name @ ''}'') (flat (t # ts)) =
        (CHR ''{'' # name @ ''}'') @
          str_replace marker (CHR ''{'' # name @ ''}'') (flat (drop (length marker) (t # ts)))"
      using str_replace_match [OF assms(1)] by simp
    also have "\<dots> = (CHR ''{'' # name @ ''}'') @
        flat (restore marker name (drop (length marker) (t # ts)))"
      using "2.IH"(1) assms True free by simp
    finally show ?thesis
      using True assms(1) by simp
  next
    case False
    have free: "marker_free marker ts"
      using "2.prems"(3) by (auto simp: marker_free_def)
    have ih: "str_replace marker (CHR ''{'' # name @ ''}'') (flat ts) =
        flat (restore marker name ts)"
      using "2.IH"(2) assms False free by simp
    have "str_replace marker (CHR ''{'' # name @ ''}'') (emit t @ flat ts) =
        emit t @ str_replace marker (CHR ''{'' # name @ ''}'') (flat ts)"
    proof (cases t)
      case (Placeholder n)
      have "hd marker \<notin> set n"
        using "2.prems"(3) Placeholder by (auto simp: marker_free_def)
      then have "\<forall>c \<in> set (emit t). c \<noteq> hd marker"
        using Placeholder hd_marker by auto
      then show ?thesis
        by (rule str_replace_skip [OF assms(1)])
    next
      case (Ch c)
      show ?thesis
      proof (cases "c = CHR ''{'' \<or> c = CHR ''}''")
        case True
        then have "\<forall>x \<in> set (emit t). x \<noteq> hd marker"
          using Ch hd_marker by auto
        then show ?thesis
          by (rule str_replace_skip [OF assms(1)])
      next
        case plain: False
        have "\<not> prefix marker (flat (t # ts))"
          using False prefix_flat [OF assms(2), of "t # ts"] by simp
        then show ?thesis
          using Ch plain assms(1) by simp
      qed
    qed
    with ih False show ?thesis
      by simp
  qed
qed


lemma placeholder_fields: "Placeholder n \<in> set ts \<longleftrightarrow> n \<in> set (fields_of ts)"
  by (induction ts rule: fields_of.induct) auto

lemma fields_of_drop: "set (fields_of (drop k ts)) \<subseteq> set (fields_of ts)"
  using set_drop_subset [of k ts] by (auto simp: placeholder_fields [symmetric])

lemma fields_of_restore:
  "set (fields_of (restore marker name ts)) \<subseteq> insert name (set (fields_of ts))"
proof (induction marker name ts rule: restore.induct)
  case (1 marker name)
  then show ?case by simp
next
  case (2 marker name t ts)
  show ?case
  proof (cases "marker \<noteq> [] \<and> prefix (map Ch marker) (t # ts)")
    case True
    with "2.IH"(1) fields_of_drop [of "length marker" "t # ts"] show ?thesis
      by auto
  next
    case False
    with "2.IH"(2) show ?thesis
      by (cases t) auto
  qed
qed

lemma restore_without_marker:
  "marker \<noteq> [] \<Longrightarrow> Ch (hd marker) \<notin> set ts \<Longrightarrow> restore marker name ts = ts"
proof (induction ts)
  case Nil
  then show ?case by simp
next
  case (Cons t ts)
  then have "\<not> prefix (map Ch marker) (t # ts)"
    by (cases marker) auto
  with Cons show ?case by simp
qed

lemma format_fields_placeholder:
  assumes "brace_free n"
  shows "format_fields (CHR ''{'' # n @ CHR ''}'' # s) = map_option (Cons n) (format_fields s)"
proof -
  have tw: "takeWhile (\<lambda>x. x \<noteq> CHR ''}'') (n @ CHR ''}'' # s) = n"
    using assms by (induction n) (auto simp: brace_free_def)
  have dw: "dropWhile (\<lambda>x. x \<noteq> CHR ''}'') (n @ CHR ''}'' # s) = CHR ''}'' # s"
    using assms by (induction n) (auto simp: brace_free_def)
  have hd: "hd (n @ CHR ''}'' # s) \<noteq> CHR ''{''"
    using assms by (cases n) (auto simp: brace_free_def)
  show ?thesis
    using tw dw hd by simp
qed

lemma format_fields_flat:
  "\<forall>n \<in> set (fields_of ts). brace_free n \<Longrightarrow> format_fields (flat ts) = Some (fields_of ts)"
proof (induction ts rule: fields_of.induct)
  case 1
  then show ?case by simp
next
  case (2 c ts)
  then show ?case by simp
next
  case (3 n ts)
  then show ?case
    using format_fields_placeholder [of n "flat ts"] by simp
qed


lemma fields_of_chars [simp]: "fields_of (map Ch r) = []"
  by (induction r) simp_all

lemma marker_free_fields:
  "\<forall>n \<in> set (fields_of ts). hd marker \<notin> set n \<Longrightarrow> marker_free marker ts"
  by (simp add: marker_free_def placeholder_fields)

lemma fields_of_prompt_tokens:
  "set (fields_of (restore ''<<query_str>>'' ''query_str'' (map Ch r))) \<subseteq> {''query_str''}"
  "set (fields_of (restore ''<<context_str>>'' ''context_str''
      (restore ''<<query_str>>'' ''query_str'' (map Ch r)))) \<subseteq> {''context_str'', ''query_str''}"
  "set (fields_of (restore ''<<existing_answer>>'' ''existing_answer''
      (restore ''<<context_str>>'' ''context_str''
        (restore ''<<query_str>>'' ''query_str'' (map Ch r))))) \<subseteq>
    {''existing_answer'', ''context_str'', ''query_str''}"
  "set (fields_of (prompt_tokens r)) \<subseteq> set deferred_placeholders"
proof -
  let ?t1 = "restore ''<<query_str>>'' ''query_str'' (map Ch r)"
  let ?t2 = "restore ''<<context_str>>'' ''context_str'' ?t1"
  let ?t3 = "restore ''<<existing_answer>>'' ''existing_answer'' ?t2"
  show f1: "set (fields_of ?t1) \<subseteq> {''query_str''}"
    using fields_of_restore [of "''<<query_str>>''" "''query_str''" "map Ch r"] by simp
  show f2: "set (fields_of ?t2) \<subseteq> {''context_str'', ''query_str''}"
    using fields_of_restore [of "''<<context_str>>''" "''context_str''" ?t1] f1 by blast
  show f3: "set (fields_of ?t3) \<subseteq> {''existing_answer'', ''context_str'', ''query_str''}"
    using fields_of_restore [of "''<<existing_answer>>''" "''existing_answer''" ?t2] f2 by blast
  show "set (fields_of (prompt_tokens r)) \<subseteq> set deferred_placeholders"
    using fields_of_restore [of "''<<context_msg>>''" "''context_msg''" ?t3] f3
    unfolding prompt_tokens_def deferred_placeholders_def by auto
qed

lemma restore_markers:
  "str_replace ''<<context_msg>>'' ''{context_msg}''
     (str_replace ''<<existing_answer>>'' ''{existing_answer}''
       (str_replace ''<<context_str>>'' ''{context_str}''
         (str_replace ''<<query_str>>'' ''{query_str}'' (flat (map Ch r))))) =
   flat (prompt_tokens r)"
proof -
  let ?t1 = "restore ''<<query_str>>'' ''query_str'' (map Ch r)"
  let ?t2 = "restore ''<<context_str>>'' ''context_str'' ?t1"
  let ?t3 = "restore ''<<existing_answer>>'' ''existing_answer'' ?t2"
  have s1: "str_replace ''<<query_str>>'' ''{query_str}'' (flat (map Ch r)) = flat ?t1"
    using str_replace_restore [of "''<<query_str>>''" "map Ch r" "''query_str''"]
    by (simp add: brace_free_def marker_free_fields)
  have "marker_free ''<<context_str>>'' ?t1"
    using fields_of_prompt_tokens(1) [of r] by (intro marker_free_fields) auto
  then have s2: "str_replace ''<<context_str>>'' ''{context_str}'' (flat ?t1) = flat ?t2"
    using str_replace_restore [of "''<<context_str>>''" ?t1 "''context_str''"]
    by (simp add: brace_free_def)
  have "marker_free ''<<existing_answer>>'' ?t2"
    using fields_of_prompt_tokens(2) [of r] by (intro marker_free_fields) auto
  then have s3: "str_replace ''<<existing_answer>>'' ''{existing_answer}'' (flat ?t2) = flat ?t3"
    using str_replace_restore [of "''<<existing_answer>>''" ?t2 "''existing_answer''"]
    by (simp add: brace_free_def)
  have "marker_free ''<<context_msg>>'' ?t3"
    using fields_of_prompt_tokens(3) [of r] by (intro marker_free_fields) auto
  then have s4: "str_replace ''<<context_msg>>'' ''{context_msg}'' (flat ?t3) =
      flat (prompt_tokens r)"
    using str_replace_restore [of "''<<context_msg>>''" ?t3 "''context_msg''"]
    by (simp add: brace_free_def prompt_tokens_def)
  show ?thesis
    by (simp only: s1 s2 s3 s4)
qed

lemma get_prompt_tokens:
  "get_prompt_by_jinja2_template render t kw =
     (case render t kw of Inl e \<Rightarrow> Inl e | Inr r \<Rightarrow> Inr (flat (prompt_tokens r)))"
  unfolding get_prompt_by_jinja2_template_def
  by (simp only: escape_braces restore_markers)

lemma prompt_tokens_without_marker:
  assumes "CHR ''<'' \<notin> set r"
  shows "prompt_tokens r = map Ch r"
proof -
  have "Ch (CHR ''<'') \<notin> set (map Ch r)"
    using assms by auto
  then show ?thesis
    by (simp add: prompt_tokens_def restore_without_marker)
qed

text \<open>
  Claim C6, amended. Whenever the template engine renders the template, the prompt is
  the rendered text with every brace doubled and the four markers replaced by their
  placeholders; read as a format string it is well formed, every replacement field in it
  is one of \<open>query_str\<close>, \<open>context_str\<close>, \<open>existing_answer\<close>, \<open>context_msg\<close>, and a
  rendered text without the character \<open><\<close> gives no replacement field at all. So the
  braces of rendered values never form a directive; a value can put one of the four
  placeholders into the prompt, by containing its marker, and nothing else.
\<close>

theorem rendered_prompt_fields:
  assumes "render template_string kw = Inr rendered"
  shows "\<exists>p fs. get_prompt_by_jinja2_template render template_string kw = Inr p \<and>
           p = flat (prompt_tokens rendered) \<and>
           format_fields p = Some fs \<and>
           set fs \<subseteq> set deferred_placeholders \<and>
           (CHR ''<'' \<notin> set rendered \<longrightarrow> fs = [])"
proof -
  have p: "get_prompt_by_jinja2_template render template_string kw =
      Inr (flat (prompt_tokens rendered))"
    using assms by (simp add: get_prompt_tokens)
  have names: "set (fields_of (prompt_tokens rendered)) \<subseteq> set deferred_placeholders"
    by (rule fields_of_prompt_tokens(4))
  then have "\<forall>n \<in> set (fields_of (prompt_tokens rendered)). brace_free n"
    by (auto simp: deferred_placeholders_def brace_free_def)
  then have fields: "format_fields (flat (prompt_tokens rendered)) =
      Some (fields_of (prompt_tokens rendered))"
    by (rule format_fields_flat)
  have "CHR ''<'' \<notin> set rendered \<longrightarrow> fields_of (prompt_tokens rendered) = []"
    by (simp add: prompt_tokens_without_marker)
  with p names fields show ?thesis
    by blast
qed

theorem rendered_prompt_fields_witness:
  "render_variable ''{{ chunk }}'' [(''chunk'', JStr ''a {b} <<query_str>>'')] =
     Inr ''a {b} <<query_str>>'' \<and>
   get_prompt_by_jinja2_template render_variable ''{{ chunk }}''
     [(''chunk'', JStr ''a {b} <<query_str>>'')] = Inr ''a {{b}} {query_str}'' \<and>
   format_fields ''a {{b}} {query_str}'' = Some [''query_str''] \<and>
   set [''query_str''] \<subseteq> set deferred_placeholders"
proof -
  have h: "render_variable ''{{ chunk }}'' [(''chunk'', JStr ''a {b} <<query_str>>'')] =
     Inr ''a {b} <<query_str>>''"
    by code_simp
  have e: "get_prompt_by_jinja2_template render_variable ''{{ chunk }}''
     [(''chunk'', JStr ''a {b} <<query_str>>'')] = Inr ''a {{b}} {query_str}''"
    by code_simp
  from rendered_prompt_fields
      [of render_variable "''{{ chunk }}''" "[(''chunk'', JStr ''a {b} <<query_str>>'')]"
        "''a {b} <<query_str>>''"] h e
  obtain fs where
    "format_fields ''a {{b}} {query_str}'' = Some fs" "set fs \<subseteq> set deferred_placeholders"
    by auto
  moreover have "format_fields ''a {{b}} {query_str}'' = Some [''query_str'']"
    by code_simp
  ultimately show ?thesis
    using h e by simp
qed

text \<open>
  Claim C6, as stated, fails: the template \<open>{{ chunk }}\<close> holds no marker, yet with the
  value \<open><<query_str>>\<close> the prompt is the live placeholder \<open>{query_str}\<close>, which the
  downstream formatter fills in, while a plain value gives a prompt without any field.
  The value has injected a formatting directive.
\<close>

theorem prompt_injection_counterexample:
  "get_prompt_by_jinja2_template render_variable ''{{ chunk }}''
     [(''chunk'', JStr ''<<query_str>>'')] = Inr ''{query_str}'' \<and>
   format_fields ''{query_str}'' = Some [''query_str''] \<and>
   get_prompt_by_jinja2_template render_variable ''{{ chunk }}''
     [(''chunk'', JStr ''plain text'')] = Inr ''plain text'' \<and>
   format_fields ''plain text'' = Some []"
  by code_simp

end
